theory Spec2Isabelle
  imports Complex_Main "HOL-Library.Sublist"
begin

section \<open>Strings\<close>

text \<open>
  A JavaScript string is a sequence of UTF-16 code units. It is modelled as a
  \<^typ>\<open>string\<close>, one \<^typ>\<open>char\<close> per code unit, which covers the code units
  below 256. The helpers below are the parts of the string library the
  processor calls.
\<close>

definition isDigit :: "char \<Rightarrow> bool" where
  \<comment> \<open>the regular-expression class \<open>[0-9]\<close>, which is also \<open>\d\<close>\<close>
  "isDigit c = (c \<in> set ''0123456789'')"

definition digitVal :: "char \<Rightarrow> nat" where
  "digitVal c = of_char c - 48"

definition isWhiteSpace :: "char \<Rightarrow> bool" where
  \<comment> \<open>what \<open>String.prototype.trim\<close> strips: TAB, LF, VT, FF, CR, SP, NBSP\<close>
  "isWhiteSpace c =
     (c \<in> set [CHR 0x09, CHR 0x0A, CHR 0x0B, CHR 0x0C, CHR 0x0D, CHR 0x20, CHR 0xA0])"

definition trim :: "string \<Rightarrow> string" where
  "trim s = rev (dropWhile isWhiteSpace (rev (dropWhile isWhiteSpace s)))"

fun join :: "string \<Rightarrow> string list \<Rightarrow> string" where
  "join sep [] = []"
| "join sep [x] = x"
| "join sep (x # y # ys) = x @ sep @ join sep (y # ys)"

section \<open>Year normalisation\<close>

text \<open>
  \<open>normalizeYears\<close> of the direct PDF processor: an absent or empty list gives
  the empty list; otherwise every entry is trimmed, empty entries are dropped,
  and an entry matching \<open>/^\d{2}$/\<close> is prefixed with \<open>20\<close> when its number is
  at most 30 and with \<open>19\<close> otherwise.
\<close>

definition isTwoDigits :: "string \<Rightarrow> bool" where
  \<comment> \<open>\<open>/^\d{2}$/.test(y)\<close>\<close>
  "isTwoDigits y = (length y = 2 \<and> list_all isDigit y)"


definition twoDigitNumber :: "string \<Rightarrow> nat" where
  \<comment> \<open>\<open>Number(y)\<close>, \<open>parseInt(y)\<close> on a string of two decimal digits\<close>
  "twoDigitNumber y = 10 * digitVal (y ! 0) + digitVal (y ! 1)"

definition normalizeYear :: "string \<Rightarrow> string" where
  "normalizeYear y =
     (if isTwoDigits y
      then (if twoDigitNumber y \<le> 30 then ''20'' @ y else ''19'' @ y)
      else y)"

definition normalizeYears :: "string list option \<Rightarrow> string list" where
  "normalizeYears years =
     (case years of
        None \<Rightarrow> []
      | Some ys \<Rightarrow>
          if ys = [] then []
          else map normalizeYear (filter (\<lambda>y. y \<noteq> []) (map trim ys)))"

section \<open>Segmenter\<close>

text \<open>
  \<open>splitPdfIntoChunks\<close>. The document enters as its page count
  (\<open>srcDoc.getPageCount()\<close>); the encoded bytes of a chunk are represented by
  the list of 0-based page indices copied into it. The \<open>for\<close> loop is the
  recursion \<open>splitLoop\<close> on \<open>start\<close> with the output array as accumulator. With
  a chunk size below 1 the loop of the source never ends, which is the value
  \<open>None\<close>.
\<close>

record chunk =
  pageIndices :: "int list"
  fromPage :: int
  toPage :: int

partial_function (option) splitLoop :: "int \<Rightarrow> int \<Rightarrow> int \<Rightarrow> chunk list \<Rightarrow> chunk list option" where
  "splitLoop totalPages pagesPerChunk start out =
     (if start < totalPages
      then splitLoop totalPages pagesPerChunk (start + pagesPerChunk)
             (out @ [\<lparr> pageIndices =
                        map (\<lambda>i. start + int i)
                          [0 ..< nat (min (start + pagesPerChunk - 1) (totalPages - 1) - start + 1)],
                      fromPage = start + 1,
                      toPage = min (start + pagesPerChunk - 1) (totalPages - 1) + 1 \<rparr>])
      else Some out)"

declare splitLoop.simps [code]

definition splitPdfIntoChunks :: "int \<Rightarrow> int \<Rightarrow> chunk list option" where
  "splitPdfIntoChunks totalPages pagesPerChunk = splitLoop totalPages pagesPerChunk 0 []"

definition unitPages :: "chunk \<Rightarrow> int list" where
  \<comment> \<open>the absolute pages a unit covers\<close>
  "unitPages u = [fromPage u .. toPage u]"

definition unitLength :: "chunk \<Rightarrow> int" where
  "unitLength u = toPage u - fromPage u + 1"

section \<open>Regular expressions of the filename heuristics\<close>

text \<open>
  The four patterns of \<open>extractYearFromFilename\<close> are modelled as they match:
  \<open>String.prototype.match\<close> without the \<open>g\<close> flag tries the start positions
  from left to right and returns the first position's match; the model returns
  its capture group 1. A pattern is a function of the character before the
  position (for \<open>\b\<close>) and the rest of the string from the position on. None of
  the four patterns can match in two ways at one position, so each is written
  as the test it performs there.
\<close>

definition isWordChar :: "char \<Rightarrow> bool" where
  \<comment> \<open>\<open>\w\<close>, the class deciding \<open>\b\<close>: \<open>[A-Za-z0-9_]\<close>\<close>
  "isWordChar c =
     (let n = (of_char c :: nat)
      in (48 \<le> n \<and> n \<le> 57) \<or> (65 \<le> n \<and> n \<le> 90) \<or> n = 95 \<or> (97 \<le> n \<and> n \<le> 122))"

definition atWordBoundary :: "char option \<Rightarrow> string \<Rightarrow> bool" where
  \<comment> \<open>\<open>\b\<close>: exactly one side of the position is a word character\<close>
  "atWordBoundary prev rest =
     ((case prev of None \<Rightarrow> False | Some c \<Rightarrow> isWordChar c)
        \<noteq> (case rest of [] \<Rightarrow> False | c # _ \<Rightarrow> isWordChar c))"

definition toLowerChar :: "char \<Rightarrow> char" where
  \<comment> \<open>lower case of one code unit below 256: \<open>A-Z\<close>, and Latin-1 \<open>0xC0-0xDE\<close> but \<open>0xD7\<close>\<close>
  "toLowerChar c =
     (let n = (of_char c :: nat)
      in if (65 \<le> n \<and> n \<le> 90) \<or> (192 \<le> n \<and> n \<le> 222 \<and> n \<noteq> 215)
         then char_of (n + 32) else c)"

definition toLowerCase :: "string \<Rightarrow> string" where
  "toLowerCase s = map toLowerChar s"

definition startsWithIgnoreCase :: "string \<Rightarrow> string \<Rightarrow> bool" where
  \<comment> \<open>a lower-case ASCII literal of a pattern with the \<open>i\<close> flag, matched at the position\<close>
  "startsWithIgnoreCase lit rest =
     (length lit \<le> length rest \<and> toLowerCase (take (length lit) rest) = lit)"

definition skipSeparator :: "string \<Rightarrow> string" where
  \<comment> \<open>\<open>[_-]?\<close>\<close>
  "skipSeparator rest =
     (case rest of
        [] \<Rightarrow> []
      | c # cs \<Rightarrow> if c = CHR ''_'' \<or> c = CHR ''-'' then cs else rest)"

definition matchYear20 :: "char option \<Rightarrow> string \<Rightarrow> string option" where
  \<comment> \<open>\<open>/\b(20[0-9]{2})\b/\<close>\<close>
  "matchYear20 prev rest =
     (case rest of
        a # b # c # d # rest' \<Rightarrow>
          if atWordBoundary prev rest \<and> a = CHR ''2'' \<and> b = CHR ''0'' \<and> isDigit c \<and> isDigit d
             \<and> atWordBoundary (Some d) rest'
          then Some [a, b, c, d] else None
      | _ \<Rightarrow> None)"

definition matchTwoDigit :: "char option \<Rightarrow> string \<Rightarrow> string option" where
  \<comment> \<open>\<open>/\b([0-9]{2})\b/\<close>\<close>
  "matchTwoDigit prev rest =
     (case rest of
        a # b # rest' \<Rightarrow>
          if atWordBoundary prev rest \<and> isDigit a \<and> isDigit b \<and> atWordBoundary (Some b) rest'
          then Some [a, b] else None
      | _ \<Rightarrow> None)"

definition matchYearWord :: "char option \<Rightarrow> string \<Rightarrow> string option" where
  \<comment> \<open>\<open>/year[_-]?([0-9]{2,4})/i\<close>: the digits are taken greedily, up to four\<close>
  "matchYearWord prev rest =
     (if startsWithIgnoreCase ''year'' rest
      then (let digits = takeWhile isDigit (take 4 (skipSeparator (drop 4 rest)))
            in if 2 \<le> length digits then Some digits else None)
      else None)"

definition matchPaper :: "char option \<Rightarrow> string \<Rightarrow> string option" where
  \<comment> \<open>\<open>/([0-9]{4})[_-]?paper/i\<close>\<close>
  "matchPaper prev rest =
     (case rest of
        a # b # c # d # rest' \<Rightarrow>
          if isDigit a \<and> isDigit b \<and> isDigit c \<and> isDigit d
             \<and> startsWithIgnoreCase ''paper'' (skipSeparator rest')
          then Some [a, b, c, d] else None
      | _ \<Rightarrow> None)"

fun searchFrom :: "(char option \<Rightarrow> string \<Rightarrow> string option) \<Rightarrow> char option \<Rightarrow> string \<Rightarrow> string option" where
  "searchFrom m prev [] = m prev []"
| "searchFrom m prev (c # cs) =
     (case m prev (c # cs) of
        Some g \<Rightarrow> Some g
      | None \<Rightarrow> searchFrom m (Some c) cs)"

definition regexMatch :: "(char option \<Rightarrow> string \<Rightarrow> string option) \<Rightarrow> string \<Rightarrow> string option" where
  \<comment> \<open>\<open>s.match(pattern)\<close>, then \<open>match[1]\<close>; \<open>None\<close> is \<open>null\<close>\<close>
  "regexMatch m s = searchFrom m None s"

section \<open>Filtering policy: the filename pre-filter\<close>

definition expandYear :: "string \<Rightarrow> string" where
  \<comment> \<open>the body of \<open>if (match)\<close>: a capture of length 2 (always two digits) gets its century\<close>
  "expandYear year =
     (if length year = 2
      then (if twoDigitNumber year \<le> 30 then ''20'' @ year else ''19'' @ year)
      else year)"

fun firstPatternMatch :: "(char option \<Rightarrow> string \<Rightarrow> string option) list \<Rightarrow> string \<Rightarrow> string option" where
  \<comment> \<open>\<open>for (const pattern of yearPatterns)\<close>, returning at the first match\<close>
  "firstPatternMatch [] fileName = None"
| "firstPatternMatch (pattern # patterns) fileName =
     (case regexMatch pattern fileName of
        Some year \<Rightarrow> Some (expandYear year)
      | None \<Rightarrow> firstPatternMatch patterns fileName)"

definition yearPatterns :: "(char option \<Rightarrow> string \<Rightarrow> string option) list" where
  "yearPatterns = [matchYear20, matchTwoDigit, matchYearWord, matchPaper]"

definition extractYearFromFilename :: "string \<Rightarrow> string option" where
  "extractYearFromFilename fileName = firstPatternMatch yearPatterns fileName"

text \<open>
  The exam context, with the two fields the control flow reads. The other
  fields (exam key, full name, subjects) only reach the prompt text.
  \<open>strictYearFiltering\<close> is optional in the source and tested for truthiness, so
  an absent flag is \<open>False\<close>.
\<close>

record examContext =
  allowedYears :: "string list option"
  strictYearFiltering :: bool

record filterCheck =
  shouldProcess :: bool
  reason :: "string option"
  detectedYear :: "string option"

definition truthyString :: "string option \<Rightarrow> bool" where
  \<comment> \<open>truthiness of a \<open>string | null\<close>: neither \<open>null\<close> nor the empty string\<close>
  "truthyString s = (case s of None \<Rightarrow> False | Some t \<Rightarrow> t \<noteq> [])"

definition shouldProcessPdf :: "string \<Rightarrow> examContext \<Rightarrow> filterCheck" where
  "shouldProcessPdf fileName examCtx =
     (case allowedYears examCtx of
        None \<Rightarrow> \<lparr>shouldProcess = True, reason = None, detectedYear = None\<rparr>
      | Some allowed \<Rightarrow>
          if allowed = [] then \<lparr>shouldProcess = True, reason = None, detectedYear = None\<rparr>
          else
            (let detected = extractYearFromFilename fileName in
             if \<not> truthyString detected \<and> \<not> strictYearFiltering examCtx
             then \<lparr>shouldProcess = True,
                   reason = Some ''No year detected, strict filtering disabled'',
                   detectedYear = None\<rparr>
             else if \<not> truthyString detected \<and> strictYearFiltering examCtx
             then \<lparr>shouldProcess = False,
                   reason = Some ''No year detected in filename, strict filtering enabled'',
                   detectedYear = None\<rparr>
             else if truthyString detected \<and> the detected \<in> set allowed
             then \<lparr>shouldProcess = True,
                   reason = Some (''Year '' @ the detected @ '' is in allowed years: ''
                                  @ join '', '' allowed),
                   detectedYear = detected\<rparr>
             else if truthyString detected
             then \<lparr>shouldProcess = False,
                   reason = Some (''Year '' @ the detected @ '' not in allowed years: ''
                                  @ join '', '' allowed),
                   detectedYear = detected\<rparr>
             else \<lparr>shouldProcess = False, reason = Some ''Unknown filtering condition'',
                   detectedYear = None\<rparr>))"

section \<open>The filename patterns, position by position\<close>

text \<open>
  What each of the four patterns accepts, stated on the characters of the
  filename and independently of the matchers above: \<open>i\<close> is the position the
  match starts at. These predicates are what the matchers are compared with in
  the properties of the pre-filter.
\<close>

definition year20At :: "string \<Rightarrow> nat \<Rightarrow> bool" where
  \<comment> \<open>\<open>20NN\<close> at position \<open>i\<close>, with no letter, digit or underscore next to it\<close>
  "year20At s i =
     (i + 4 \<le> length s
      \<and> s ! i = CHR ''2'' \<and> s ! (i + 1) = CHR ''0''
      \<and> isDigit (s ! (i + 2)) \<and> isDigit (s ! (i + 3))
      \<and> (i = 0 \<or> \<not> isWordChar (s ! (i - 1)))
      \<and> (i + 4 = length s \<or> \<not> isWordChar (s ! (i + 4))))"

definition twoDigitsAt :: "string \<Rightarrow> nat \<Rightarrow> bool" where
  \<comment> \<open>two digits at position \<open>i\<close>, with no letter, digit or underscore next to them\<close>
  "twoDigitsAt s i =
     (i + 2 \<le> length s
      \<and> isDigit (s ! i) \<and> isDigit (s ! (i + 1))
      \<and> (i = 0 \<or> \<not> isWordChar (s ! (i - 1)))
      \<and> (i + 2 = length s \<or> \<not> isWordChar (s ! (i + 2))))"

definition afterSeparator :: "string \<Rightarrow> nat \<Rightarrow> nat" where
  \<comment> \<open>the position after an underscore or hyphen at position \<open>j\<close>, if there is one\<close>
  "afterSeparator s j =
     (if j < length s \<and> (s ! j = CHR ''_'' \<or> s ! j = CHR ''-'') then j + 1 else j)"

definition digitsFrom :: "string \<Rightarrow> nat \<Rightarrow> string" where
  \<comment> \<open>the digits that stand at position \<open>j\<close>, up to four of them\<close>
  "digitsFrom s j = takeWhile isDigit (take 4 (drop j s))"

definition yearWordAt :: "string \<Rightarrow> nat \<Rightarrow> bool" where
  \<comment> \<open>\<open>year\<close> in any case at position \<open>i\<close>, then an optional separator and at least two
      digits\<close>
  "yearWordAt s i =
     (toLowerCase (take 4 (drop i s)) = ''year''
      \<and> 2 \<le> length (digitsFrom s (afterSeparator s (i + 4))))"

definition paperAt :: "string \<Rightarrow> nat \<Rightarrow> bool" where
  \<comment> \<open>four digits at position \<open>i\<close>, then an optional separator and \<open>paper\<close> in any case\<close>
  "paperAt s i =
     (i + 4 \<le> length s
      \<and> isDigit (s ! i) \<and> isDigit (s ! (i + 1)) \<and> isDigit (s ! (i + 2)) \<and> isDigit (s ! (i + 3))
      \<and> toLowerCase (take 5 (drop (afterSeparator s (i + 4)) s)) = ''paper'')"

definition firstPosition :: "(nat \<Rightarrow> bool) \<Rightarrow> string \<Rightarrow> nat option" where
  \<comment> \<open>the leftmost position of the string at which \<open>P\<close> holds\<close>
  "firstPosition P s = find P [0 ..< length s]"

section \<open>JavaScript values\<close>

text \<open>
  The values \<open>JSON.parse\<close> returns. A number is a double: a rational (every
  finite double is one) or one of the three special values. An object is its
  list of own properties in \<open>Object.keys\<close> order. A property that is absent
  reads as \<open>undefined\<close>, which is \<open>None\<close> of \<^typ>\<open>'a option\<close>. A thrown error is
  its message.
\<close>

type_synonym error = string

datatype jsnum = Num rat | PosInf | NegInf | NaN

datatype js =
    JNull
  | JBool bool
  | JNum jsnum
  | JStr string
  | JArr "js list"
  | JObj "(string \<times> js) list"

fun numLe :: "jsnum \<Rightarrow> jsnum \<Rightarrow> bool" where
  \<comment> \<open>\<open>a <= b\<close> on numbers; every comparison with \<open>NaN\<close> is false\<close>
  "numLe NaN b = False"
| "numLe a NaN = False"
| "numLe NegInf b = True"
| "numLe a PosInf = True"
| "numLe (Num a) (Num b) = (a \<le> b)"
| "numLe PosInf b = False"
| "numLe a NegInf = False"

fun numNeg :: "jsnum \<Rightarrow> jsnum" where
  "numNeg (Num a) = Num (- a)"
| "numNeg PosInf = NegInf"
| "numNeg NegInf = PosInf"
| "numNeg NaN = NaN"

text \<open>
  Arithmetic on doubles rounds: the result of an operation is the double
  nearest to the exact result, ties going to the even significand
  (\<open>roundToDouble\<close>). A finite double is \<open>m * 2 ^ e\<close> with a significand
  \<open>m < 2 ^ 53\<close> and an exponent \<open>e\<close> from \<open>-1074\<close> to \<open>971\<close>; a result of
  magnitude \<open>2 ^ 1024\<close> or more is an infinity. An integer of magnitude at most
  \<open>2 ^ 53\<close> is a double, so it is its own rounding.
\<close>

definition roundHalfEven :: "rat \<Rightarrow> int" where
  \<comment> \<open>the nearest integer, the even one of two equally near\<close>
  "roundHalfEven a =
     (let f = \<lfloor>a\<rfloor>; r = a - of_int f
      in if r < 1 / 2 then f else if 1 / 2 < r then f + 1 else if even f then f else f + 1)"

function scaleSignificand :: "rat \<Rightarrow> int \<Rightarrow> rat \<times> int" where
  \<comment> \<open>\<open>a * 2 ^ e\<close> with \<open>a\<close> brought between \<open>2 ^ 52 = 4503599627370496\<close> and
      \<open>2 ^ 53 = 9007199254740992\<close>, as far as the exponents of a double allow\<close>
  "scaleSignificand a e =
     (if 9007199254740992 \<le> a \<and> e \<le> 971 then scaleSignificand (a / 2) (e + 1)
      else if a < 4503599627370496 \<and> - 1074 < e then scaleSignificand (a * 2) (e - 1)
      else (a, e))"
  by pat_completeness auto
termination
  by (relation "measure (\<lambda>(a, e). if 9007199254740992 \<le> a then nat (972 - e) + 2048
                                  else nat (e + 1074))")
    auto

declare scaleSignificand.simps [simp del]

definition pow2 :: "int \<Rightarrow> rat" where
  "pow2 e = (if 0 \<le> e then 2 ^ nat e else 1 / 2 ^ nat (- e))"

definition roundToDouble :: "rat \<Rightarrow> jsnum" where
  "roundToDouble x =
     (if x = 0 then Num 0
      else (case scaleSignificand \<bar>x\<bar> 0 of
              (a, e) \<Rightarrow>
                (let m = roundHalfEven a
                 in if 971 < e \<or> (e = 971 \<and> 9007199254740992 \<le> m)
                    then (if 0 < x then PosInf else NegInf)
                    else Num (sgn x * of_int m * pow2 e))))"

definition isInteger :: "rat \<Rightarrow> bool" where
  "isInteger x = (of_int \<lfloor>x\<rfloor> = x)"

definition toDouble :: "rat \<Rightarrow> jsnum" where
  \<comment> \<open>the double an exact result is rounded to\<close>
  "toDouble x = (if isInteger x \<and> \<bar>x\<bar> \<le> 9007199254740992 then Num x else roundToDouble x)"

fun numAdd :: "jsnum \<Rightarrow> jsnum \<Rightarrow> jsnum" where
  \<comment> \<open>\<open>a + b\<close> on numbers\<close>
  "numAdd NaN b = NaN"
| "numAdd a NaN = NaN"
| "numAdd (Num a) (Num b) = toDouble (a + b)"
| "numAdd PosInf NegInf = NaN"
| "numAdd NegInf PosInf = NaN"
| "numAdd PosInf b = PosInf"
| "numAdd NegInf b = NegInf"
| "numAdd a PosInf = PosInf"
| "numAdd a NegInf = NegInf"

definition numSub :: "jsnum \<Rightarrow> jsnum \<Rightarrow> jsnum" where
  \<comment> \<open>\<open>a - b\<close> on numbers\<close>
  "numSub a b = numAdd a (numNeg b)"

fun truthy :: "js \<Rightarrow> bool" where
  "truthy JNull = False"
| "truthy (JBool b) = b"
| "truthy (JNum n) = (n \<noteq> Num 0 \<and> n \<noteq> NaN)"
| "truthy (JStr s) = (s \<noteq> [])"
| "truthy (JArr xs) = True"
| "truthy (JObj kv) = True"

definition truthyOpt :: "js option \<Rightarrow> bool" where
  \<comment> \<open>truthiness of a property read; \<open>undefined\<close> is falsy\<close>
  "truthyOpt v = (case v of None \<Rightarrow> False | Some x \<Rightarrow> truthy x)"

definition nullish :: "js option \<Rightarrow> bool" where
  \<comment> \<open>what \<open>??\<close> skips: \<open>undefined\<close> and \<open>null\<close>\<close>
  "nullish v = (v = None \<or> v = Some JNull)"

fun getProp :: "js \<Rightarrow> string \<Rightarrow> js option" where
  \<comment> \<open>\<open>v.name\<close> on a value other than \<open>null\<close>, for the property names the processor
      reads, none of which a string, array, number or boolean has\<close>
  "getProp (JObj kv) name = map_of kv name"
| "getProp v name = None"

text \<open>
  The two conversions of the language the processor relies on, \<open>Number(v)\<close> and
  the \<open>ToString\<close> of a template literal, are defined here down to the two
  functions of the runtime that work on the digits of a number:
  \<open>Number::toString\<close> and \<open>StringToNumber\<close>. These two are parameters of the model.
  What \<open>Number::toString\<close> gives for an integer of magnitude at most \<open>2 ^ 53\<close>
  (its decimal digits: below \<open>2 ^ 53\<close> every integer is a double, so no shorter
  digit string denotes it) and for the special values is written out in
  \<open>numberToString\<close>, so that the parameter is consulted for the other numbers
  only.
\<close>

record runtime =
  NumberToString :: "jsnum \<Rightarrow> string"
  StringToNumber :: "string \<Rightarrow> jsnum"

function showNat :: "nat \<Rightarrow> string" where
  \<comment> \<open>a non-negative integer in a template literal: its decimal digits\<close>
  "showNat n =
     (if n < 10 then [char_of (48 + n)]
      else showNat (n div 10) @ [char_of (48 + n mod 10)])"
  by pat_completeness auto
termination
  by (relation "measure id") auto

declare showNat.simps [simp del]

definition showInt :: "int \<Rightarrow> string" where
  "showInt i = (if i < 0 then CHR ''-'' # showNat (nat (- i)) else showNat (nat i))"

definition numberToString :: "runtime \<Rightarrow> jsnum \<Rightarrow> string" where
  \<comment> \<open>a number in a template literal\<close>
  "numberToString rt n =
     (case n of
        Num x \<Rightarrow>
          if isInteger x \<and> \<bar>x\<bar> \<le> 9007199254740992 then showInt \<lfloor>x\<rfloor>
          else NumberToString rt n
      | PosInf \<Rightarrow> ''Infinity''
      | NegInf \<Rightarrow> ''-Infinity''
      | NaN \<Rightarrow> ''NaN'')"

fun ToString :: "runtime \<Rightarrow> js \<Rightarrow> string" where
  "ToString rt JNull = ''null''"
| "ToString rt (JBool b) = (if b then ''true'' else ''false'')"
| "ToString rt (JNum n) = numberToString rt n"
| "ToString rt (JStr s) = s"
| "ToString rt (JArr xs) = join '','' (map (\<lambda>x. if x = JNull then [] else ToString rt x) xs)"
| "ToString rt (JObj kv) = ''[object Object]''"

definition ToStringOpt :: "runtime \<Rightarrow> js option \<Rightarrow> string" where
  "ToStringOpt rt v = (case v of None \<Rightarrow> ''undefined'' | Some x \<Rightarrow> ToString rt x)"

fun Number_js :: "runtime \<Rightarrow> js \<Rightarrow> jsnum" where
  \<comment> \<open>\<open>Number(v)\<close>; an array or object is converted through its string\<close>
  "Number_js rt JNull = Num 0"
| "Number_js rt (JBool b) = (if b then Num 1 else Num 0)"
| "Number_js rt (JNum n) = n"
| "Number_js rt (JStr s) = StringToNumber rt s"
| "Number_js rt (JArr xs) = StringToNumber rt (ToString rt (JArr xs))"
| "Number_js rt (JObj kv) = StringToNumber rt (ToString rt (JObj kv))"

fun stringIncludes :: "string \<Rightarrow> string \<Rightarrow> bool" where
  \<comment> \<open>\<open>s.includes(needle)\<close>, written \<open>stringIncludes needle s\<close>\<close>
  "stringIncludes needle [] = (needle = [])"
| "stringIncludes needle (c # cs) = (prefix needle (c # cs) \<or> stringIncludes needle cs)"

text \<open>
  A runtime for the worked examples. It reads a run of decimal digits as
  JavaScript does; the examples use it on no other strings, and on no number
  that \<open>numberToString\<close> does not print by itself.
\<close>

definition exampleRuntime :: runtime where
  "exampleRuntime =
     \<lparr> NumberToString =
         (\<lambda>n. case n of
                 Num r \<Rightarrow> showInt \<lfloor>r\<rfloor>
               | PosInf \<Rightarrow> ''Infinity''
               | NegInf \<Rightarrow> ''-Infinity''
               | NaN \<Rightarrow> ''NaN''),
       StringToNumber =
         (\<lambda>s. if s \<noteq> [] \<and> list_all isDigit s
               then Num (of_nat (foldl (\<lambda>acc c. 10 * acc + digitVal c) 0 s))
               else NaN) \<rparr>"

section \<open>Unit processor\<close>

text \<open>
  A converted question, with the fields the reconciler reads (\<open>pageNo\<close>, \<open>text\<close>)
  and the confidence. The remaining fields of \<open>TaggedQuestion\<close> (id, exam key,
  year, options, answer, type, subject, topics, difficulty, tags, timestamp,
  provenance) are copied or defaulted independently of these three and are
  left out; so is the counter that numbers generated ids.
\<close>

record question =
  pageNo :: js
  text' :: js
  confidence :: jsnum

definition pageNoCandidate :: "js \<Rightarrow> chunk \<Rightarrow> js" where
  \<comment> \<open>\<open>q.pageNumber ?? q.page ?? q.page_no ?? chunk.fromPage\<close>\<close>
  "pageNoCandidate q chunk =
     (if \<not> nullish (getProp q ''pageNumber'') then the (getProp q ''pageNumber'')
      else if \<not> nullish (getProp q ''page'') then the (getProp q ''page'')
      else if \<not> nullish (getProp q ''page_no'') then the (getProp q ''page_no'')
      else JNum (Num (of_int (fromPage chunk))))"

definition normalizePage :: "chunk \<Rightarrow> js \<Rightarrow> js" where
  \<comment> \<open>the \<open>if (typeof pageNoCandidate === "number")\<close> block; the bounds of a chunk are
      page numbers of the document, integers that the doubles hold exactly\<close>
  "normalizePage chunk candidate =
     (case candidate of
        JNum p \<Rightarrow>
          if numLe (Num 1) p \<and> numLe p (Num (of_int (toPage chunk - fromPage chunk + 1)))
          then JNum (numAdd (Num (of_int (fromPage chunk))) (numSub p (Num 1)))
          else JNum p
      | _ \<Rightarrow> candidate)"

definition convertQuestion :: "runtime \<Rightarrow> chunk \<Rightarrow> js \<Rightarrow> error + question" where
  \<comment> \<open>the callback of \<open>questionsArray.map\<close>; reading a property of \<open>null\<close> throws\<close>
  "convertQuestion rt chunk q =
     (if q = JNull then Inl ''Cannot read properties of null''
      else Inr
        \<lparr> pageNo = normalizePage chunk (pageNoCandidate q chunk),
          text' =
            (if truthyOpt (getProp q ''questionText'') then the (getProp q ''questionText'')
             else if truthyOpt (getProp q ''text'') then the (getProp q ''text'')
             else JStr []),
          confidence =
            (case getProp q ''confidence'' of
               Some (JNum n) \<Rightarrow> n
             | c \<Rightarrow> if truthyOpt c then Number_js rt (the c) else Num (4 / 5)) \<rparr>)"

fun convertAll :: "runtime \<Rightarrow> chunk \<Rightarrow> js list \<Rightarrow> error + question list" where
  "convertAll rt chunk [] = Inr []"
| "convertAll rt chunk (q # qs) =
     (case convertQuestion rt chunk q of
        Inl e \<Rightarrow> Inl e
      | Inr t \<Rightarrow>
          (case convertAll rt chunk qs of
             Inl e \<Rightarrow> Inl e
           | Inr ts \<Rightarrow> Inr (t # ts)))"

fun firstArrayValued :: "(string \<times> js) list \<Rightarrow> js list" where
  \<comment> \<open>the loop over \<open>Object.keys(parsed)\<close> that stops at the first array\<close>
  "firstArrayValued [] = []"
| "firstArrayValued ((k, JArr xs) # kv) = xs"
| "firstArrayValued ((k, v) # kv) = firstArrayValued kv"

definition questionsArray :: "js \<Rightarrow> js list" where
  "questionsArray parsed =
     (case parsed of
        JArr xs \<Rightarrow> xs
      | _ \<Rightarrow>
        (case getProp parsed ''questions'' of
           Some (JArr xs) \<Rightarrow> xs
         | _ \<Rightarrow>
           (case getProp parsed ''items'' of
              Some (JArr xs) \<Rightarrow> xs
            | _ \<Rightarrow> (case parsed of JObj kv \<Rightarrow> firstArrayValued kv | _ \<Rightarrow> []))))"

text \<open>
  What \<open>processChunk\<close> returns: one of three object literals, modelled as one
  record whose optional properties are options (\<open>skip\<close> is absent or \<open>true\<close>).
\<close>

record chunkResult =
  success :: bool
  skip :: bool
  skipReason :: "js option"
  skipScope :: "js option"
  questions :: "question list option"
  error :: "string option"

definition isObject :: "js \<Rightarrow> bool" where
  \<comment> \<open>\<open>typeof v === "object"\<close> on a truthy value\<close>
  "isObject v = (case v of JObj kv \<Rightarrow> True | JArr xs \<Rightarrow> True | _ \<Rightarrow> False)"

definition processResponse :: "runtime \<Rightarrow> chunk \<Rightarrow> js option \<Rightarrow> error + chunkResult" where
  \<comment> \<open>the body of the \<open>try\<close> from \<open>parsed\<close> on; \<open>Inl\<close> is a throw\<close>
  "processResponse rt chunk parsed =
     (if \<not> truthyOpt parsed then Inl ''No JSON found in chunk response''
      else if isObject (the parsed) \<and> getProp (the parsed) ''skip'' = Some (JBool True)
      then
        (let skipReason =
               (if truthyOpt (getProp (the parsed) ''reason'') then the (getProp (the parsed) ''reason'')
                else JStr ''LLM signaled skip (no reason)'')
         in if truthyOpt (getProp (the parsed) ''scope'')
            then Inr \<lparr> chunkResult.success = True, skip = True, skipReason = Some skipReason,
                       skipScope = getProp (the parsed) ''scope'',
                       chunkResult.questions = Some [], error = None \<rparr>
            else
              (case skipReason of
                 JStr s \<Rightarrow>
                   Inr \<lparr> chunkResult.success = True, skip = True, skipReason = Some skipReason,
                         skipScope =
                           Some (JStr (if stringIncludes ''year'' (toLowerCase s)
                                       then ''document'' else ''chunk'')),
                         chunkResult.questions = Some [], error = None \<rparr>
               | _ \<Rightarrow> Inl ''skipReason.toLowerCase is not a function''))
      else
        (case convertAll rt chunk (questionsArray (the parsed)) of
           Inl e \<Rightarrow> Inl e
         | Inr converted \<Rightarrow>
             Inr \<lparr> chunkResult.success = True, skip = False, skipReason = None,
                   skipScope = None, chunkResult.questions = Some converted, error = None \<rparr>))"

text \<open>
  The retry loop. \<open>respond n\<close> is what the \<open>n\<close>-th request for this chunk comes
  to: the message of the error the request throws, or the value
  \<open>extractJsonFromClaudeText\<close> finds in the response text (\<open>None\<close> for \<open>null\<close>).
  The loop returns \<open>undefined\<close> (\<open>None\<close>) when its body never runs.
\<close>

function processChunkLoop ::
  "runtime \<Rightarrow> (int \<Rightarrow> error + js option) \<Rightarrow> chunk \<Rightarrow> int \<Rightarrow> int \<Rightarrow> chunkResult option" where
  "processChunkLoop rt respond chunk maxRetries attempt =
     (if attempt \<le> maxRetries
      then
        (case (case respond (attempt + 1) of
                 Inl e \<Rightarrow> Inl e
               | Inr parsed \<Rightarrow> processResponse rt chunk parsed) of
           Inr r \<Rightarrow> Some r
         | Inl lastErr \<Rightarrow>
             if attempt + 1 \<le> maxRetries
             then processChunkLoop rt respond chunk maxRetries (attempt + 1)
             else Some \<lparr> chunkResult.success = False, skip = False, skipReason = None,
                         skipScope = None, chunkResult.questions = None,
                         error = Some lastErr \<rparr>)
      else None)"
  by pat_completeness auto
termination
  by (relation "measure (\<lambda>(rt, respond, chunk, maxRetries, attempt). nat (maxRetries - attempt))")
    auto

declare processChunkLoop.simps [simp del]

definition processChunk ::
  "runtime \<Rightarrow> (nat \<Rightarrow> int \<Rightarrow> error + js option) \<Rightarrow> int \<Rightarrow> chunk \<Rightarrow> nat \<Rightarrow> chunkResult option" where
  "processChunk rt llm maxRetries chunk chunkIndex =
     processChunkLoop rt (llm chunkIndex) chunk maxRetries 0"

section \<open>Dispatcher\<close>

text \<open>
  \<open>runWithConcurrency\<close> of \<open>utils/concurrency.ts\<close>. A worker call comes to an
  error message (its promise rejects, or the call throws) or to a result. The
  runners are cooperative tasks: each is either awaiting the worker call of one
  index or has returned. The order in which the awaited calls settle is not
  fixed by the program, so it is a parameter: the schedule names, step by
  step, the runner whose awaited call settles next. \<open>results\<close> is the sparse
  array the runners write; a hole is \<open>None\<close>.
\<close>

datatype runner = Awaiting nat | Returned

record 'r pool =
  idx :: nat
  results :: "'r option list"
  active :: "runner list"

datatype 'r outcome = Fulfilled "'r option list" | Rejected error | Pending

definition arraySet :: "'r option list \<Rightarrow> nat \<Rightarrow> 'r \<Rightarrow> 'r option list" where
  \<comment> \<open>\<open>results[i] = res\<close> on a JavaScript array, which grows as needed\<close>
  "arraySet xs i v =
     (if i < length xs then xs[i := Some v]
      else xs @ replicate (i - length xs) None @ [Some v])"

definition takeNext :: "nat \<Rightarrow> 'r pool \<Rightarrow> runner \<times> 'r pool" where
  \<comment> \<open>the head of the runner's loop: \<open>const i = idx++; if (i >= items.length) return;\<close>
      and otherwise the worker call the runner then awaits\<close>
  "takeNext n p =
     (if idx p \<ge> n then (Returned, p\<lparr>idx := idx p + 1\<rparr>)
      else (Awaiting (idx p), p\<lparr>idx := idx p + 1\<rparr>))"

fun startRunners :: "nat \<Rightarrow> nat \<Rightarrow> 'r pool \<Rightarrow> 'r pool" where
  \<comment> \<open>the \<open>for\<close> loop \<open>active.push(runner())\<close>, run \<open>k\<close> times\<close>
  "startRunners 0 n p = p"
| "startRunners (Suc k) n p =
     (case takeNext n p of
        (r, p') \<Rightarrow> startRunners k n (p'\<lparr>active := active p' @ [r]\<rparr>))"

definition settle ::
  "'a list \<Rightarrow> ('a \<Rightarrow> nat \<Rightarrow> error + 'r) \<Rightarrow> nat \<Rightarrow> 'r pool \<Rightarrow> error + 'r pool" where
  \<comment> \<open>the awaited call of runner \<open>r\<close> settles: the result is stored and the runner
      loops, or the \<open>catch\<close> rethrows and the runner's promise rejects (\<open>Inl\<close>)\<close>
  "settle items worker r p =
     (if r < length (active p)
      then
        (case active p ! r of
           Awaiting i \<Rightarrow>
             (case worker (items ! i) i of
                Inr res \<Rightarrow>
                  (case takeNext (length items) (p\<lparr>results := arraySet (results p) i res\<rparr>) of
                     (st, p') \<Rightarrow> Inr (p'\<lparr>active := (active p')[r := st]\<rparr>))
              | Inl err \<Rightarrow> Inl err)
         | Returned \<Rightarrow> Inr p)
      else Inr p)"

fun runSchedule ::
  "'a list \<Rightarrow> ('a \<Rightarrow> nat \<Rightarrow> error + 'r) \<Rightarrow> nat list \<Rightarrow> 'r pool \<Rightarrow> 'r outcome" where
  \<comment> \<open>\<open>await Promise.all(active); return results;\<close>: fulfilled once every runner has
      returned, rejected with the first runner rejection\<close>
  "runSchedule items worker [] p =
     (if list_all (\<lambda>r. r = Returned) (active p) then Fulfilled (results p) else Pending)"
| "runSchedule items worker (r # sched) p =
     (if list_all (\<lambda>r. r = Returned) (active p) then Fulfilled (results p)
      else
        (case settle items worker r p of
           Inl err \<Rightarrow> Rejected err
         | Inr p' \<Rightarrow> runSchedule items worker sched p'))"

definition runWithConcurrency ::
  "'a list \<Rightarrow> ('a \<Rightarrow> nat \<Rightarrow> error + 'r) \<Rightarrow> int \<Rightarrow> nat list \<Rightarrow> 'r outcome" where
  "runWithConcurrency items worker concurrency sched =
     runSchedule items worker sched
       (startRunners (nat (min concurrency (int (length items)))) (length items)
          \<lparr>idx = 0, results = [], active = []\<rparr>)"

section \<open>Dispatcher, the copy that stores errors\<close>

text \<open>
  The repository holds a second copy of \<open>runWithConcurrency\<close> (in
  \<open>unnamed/part_001\<close>). It differs from the one in \<open>utils/concurrency.ts\<close> in two
  places: the results array is created with the length of the item list, and
  the \<open>catch\<close> stores \<open>{ error: message }\<close> at the item's index instead of
  rethrowing. An entry of its results array is the error object (\<open>Inl\<close>) or the
  worker's result (\<open>Inr\<close>).
\<close>

definition settleCapturing ::
  "'a list \<Rightarrow> ('a \<Rightarrow> nat \<Rightarrow> error + 'r) \<Rightarrow> nat \<Rightarrow> (error + 'r) pool \<Rightarrow> (error + 'r) pool" where
  "settleCapturing items worker r p =
     (if r < length (active p)
      then
        (case active p ! r of
           Awaiting i \<Rightarrow>
             (case takeNext (length items)
                     (p\<lparr>results := arraySet (results p) i (worker (items ! i) i)\<rparr>) of
                (st, p') \<Rightarrow> p'\<lparr>active := (active p')[r := st]\<rparr>)
         | Returned \<Rightarrow> p)
      else p)"

fun runScheduleCapturing ::
  "'a list \<Rightarrow> ('a \<Rightarrow> nat \<Rightarrow> error + 'r) \<Rightarrow> nat list \<Rightarrow> (error + 'r) pool
     \<Rightarrow> (error + 'r) outcome" where
  "runScheduleCapturing items worker [] p =
     (if list_all (\<lambda>r. r = Returned) (active p) then Fulfilled (results p) else Pending)"
| "runScheduleCapturing items worker (r # sched) p =
     (if list_all (\<lambda>r. r = Returned) (active p) then Fulfilled (results p)
      else runScheduleCapturing items worker sched (settleCapturing items worker r p))"

definition runWithConcurrencyCapturing ::
  "'a list \<Rightarrow> ('a \<Rightarrow> nat \<Rightarrow> error + 'r) \<Rightarrow> int \<Rightarrow> nat list \<Rightarrow> (error + 'r) outcome" where
  "runWithConcurrencyCapturing items worker concurrency sched =
     runScheduleCapturing items worker sched
       (startRunners (nat (min concurrency (int (length items)))) (length items)
          \<lparr>idx = 0, results = replicate (length items) None, active = []\<rparr>)"

section \<open>Reconciler\<close>

text \<open>
  The part of \<open>processPdfWithClaude\<close> after the dispatcher returns. The result
  object carries the fields of \<open>DirectPdfResult\<close> that depend on the run; the
  processing time and the exam key and year copied into the metadata are left
  out.
\<close>

record resultMetadata =
  totalQuestions :: nat
  skippedReason :: "string option"

record directPdfResult =
  success :: bool
  fileName :: string
  filePath :: string
  questions :: "question list"
  metadata :: resultMetadata
  errors :: "string list"

record reconcileState =
  accumulatedQuestions :: "question list"
  resultErrors :: "string list"
  sawSkip :: bool
  skipReasonFromLLM :: "js option"

definition skipScopeOf :: "chunkResult \<Rightarrow> error + js" where
  \<comment> \<open>\<open>r.skipScope || (r.skipReason && r.skipReason.toLowerCase().includes("year")
      ? "document" : "chunk")\<close>\<close>
  "skipScopeOf r =
     (if truthyOpt (skipScope r) then Inr (the (skipScope r))
      else if truthyOpt (skipReason r)
      then (case the (skipReason r) of
              JStr s \<Rightarrow>
                Inr (JStr (if stringIncludes ''year'' (toLowerCase s)
                           then ''document'' else ''chunk''))
            | _ \<Rightarrow> Inl ''r.skipReason.toLowerCase is not a function'')
      else Inr (JStr ''chunk''))"

definition truthyText :: "string option \<Rightarrow> bool" where
  "truthyText s = (case s of None \<Rightarrow> False | Some t \<Rightarrow> t \<noteq> [])"

fun reconcileLoop ::
  "chunk list \<Rightarrow> nat \<Rightarrow> chunkResult option list \<Rightarrow> reconcileState
     \<Rightarrow> reconcileState \<times> error option" where
  \<comment> \<open>the \<open>for\<close> loop over \<open>chunkResults\<close> from index \<open>i\<close>; the second component is
      the message of an error thrown inside the loop\<close>
  "reconcileLoop chunks i [] st = (st, None)"
| "reconcileLoop chunks i (None # rs) st =
     reconcileLoop chunks (i + 1) rs
       (st\<lparr>resultErrors := resultErrors st @
            [''Chunk '' @ showNat (i + 1) @ '' failed: Chunk '' @ showNat (i + 1)
             @ '' produced no result'']\<rparr>)"
| "reconcileLoop chunks i (Some r # rs) st =
     (if skip r
      then
        (case skipScopeOf r of
           Inl e \<Rightarrow> (st, Some e)
         | Inr scope \<Rightarrow>
             if scope = JStr ''document''
             then (st\<lparr>sawSkip := True,
                      skipReasonFromLLM :=
                        Some (if truthyOpt (skipReason r) then the (skipReason r)
                              else JStr ''LLM signaled document-level skip'')\<rparr>,
                   None)
             else reconcileLoop chunks (i + 1) rs st)
      else if chunkResult.success r \<and> chunkResult.questions r \<noteq> None
      then reconcileLoop chunks (i + 1) rs
             (st\<lparr>accumulatedQuestions :=
                  accumulatedQuestions st @ the (chunkResult.questions r)\<rparr>)
      else if i < length chunks
      then reconcileLoop chunks (i + 1) rs
             (st\<lparr>resultErrors := resultErrors st @
                  [''Chunk '' @ showNat (i + 1) @ '' (pages '' @ showInt (fromPage (chunks ! i))
                   @ ''-'' @ showInt (toPage (chunks ! i)) @ '') failed: ''
                   @ (if truthyText (error r) then the (error r)
                      else ''Unknown chunk failure'')]\<rparr>)
      else (st, Some ''Cannot read properties of undefined''))"

definition dedupKey :: "runtime \<Rightarrow> question \<Rightarrow> error + string" where
  \<comment> \<open>\<open>`${q.pageNo}::${(q.text || "").trim().slice(0, 120)}`\<close>; a truthy text that is
      not a string has no \<open>trim\<close>\<close>
  "dedupKey rt q =
     (case (if truthy (text' q) then text' q else JStr []) of
        JStr s \<Rightarrow> Inr (ToString rt (pageNo q) @ ''::'' @ take 120 (trim s))
      | _ \<Rightarrow> Inl ''(q.text || \"\").trim is not a function'')"

fun dedupLoop ::
  "runtime \<Rightarrow> question list \<Rightarrow> string list \<Rightarrow> question list \<Rightarrow> error + question list" where
  \<comment> \<open>the loop over \<open>accumulatedQuestions\<close> with the set \<open>seen\<close> and the array \<open>deduped\<close>\<close>
  "dedupLoop rt [] seen deduped = Inr deduped"
| "dedupLoop rt (q # qs) seen deduped =
     (case dedupKey rt q of
        Inl e \<Rightarrow> Inl e
      | Inr key \<Rightarrow>
          if key \<notin> set seen then dedupLoop rt qs (seen @ [key]) (deduped @ [q])
          else dedupLoop rt qs seen deduped)"

definition catchFailure :: "directPdfResult \<Rightarrow> error \<Rightarrow> directPdfResult" where
  \<comment> \<open>the \<open>catch\<close> block of \<open>processPdfWithClaude\<close>\<close>
  "catchFailure result msg =
     result\<lparr>success := False,
            errors := errors result @ [''Failed to process '' @ fileName result @ '': '' @ msg]\<rparr>"

definition reconcile ::
  "runtime \<Rightarrow> examContext \<Rightarrow> chunk list \<Rightarrow> chunkResult option list \<Rightarrow> directPdfResult
     \<Rightarrow> directPdfResult" where
  "reconcile rt examCtx chunks chunkResults result =
     (case reconcileLoop chunks 0 chunkResults
             \<lparr>accumulatedQuestions = [], resultErrors = errors result, sawSkip = False,
              skipReasonFromLLM = None\<rparr> of
        (st, Some e) \<Rightarrow> catchFailure (result\<lparr>errors := resultErrors st\<rparr>) e
      | (st, None) \<Rightarrow>
          if sawSkip st
          then result\<lparr>success := False,
                      metadata := (metadata result)
                        \<lparr>skippedReason :=
                           Some (''Skipped by LLM: '' @ ToStringOpt rt (skipReasonFromLLM st))\<rparr>,
                      errors := resultErrors st @
                        [''Skipped by LLM: '' @ ToStringOpt rt (skipReasonFromLLM st)]\<rparr>
          else
            (case dedupLoop rt (accumulatedQuestions st) [] [] of
               Inl e \<Rightarrow> catchFailure (result\<lparr>errors := resultErrors st\<rparr>) e
             | Inr deduped \<Rightarrow>
                 if strictYearFiltering examCtx \<and> deduped = []
                 then result\<lparr>success := False,
                             questions := deduped,
                             metadata :=
                               \<lparr>totalQuestions = length deduped,
                                skippedReason =
                                  Some ''LLM returned no questions and strictYearFiltering is enabled''\<rparr>,
                             errors := resultErrors st @
                               [''LLM returned no questions and strictYearFiltering is enabled'']\<rparr>
                 else result\<lparr>success := (deduped \<noteq> []),
                             questions := deduped,
                             metadata := (metadata result)\<lparr>totalQuestions := length deduped\<rparr>,
                             errors := resultErrors st\<rparr>))"

section \<open>Processing one document\<close>

text \<open>
  \<open>processPdfWithClaude\<close>. What the function reads from outside is its
  environment: the runtime, the page count of the file (or the message of the
  error that reading or loading it throws), the responses of the extraction
  service per chunk index and attempt, and the schedule of the dispatcher. The
  result is \<open>None\<close> when the function never returns: the segmenter loops, or the
  schedule leaves a worker call unsettled.
\<close>

record environment =
  builtins :: runtime
  pdfPageCount :: "error + int"
  llm :: "nat \<Rightarrow> int \<Rightarrow> error + js option"
  schedule :: "nat list"

record options =
  pagesPerChunk :: "int option"
  maxRetriesPerChunk :: "int option"
  chunkConcurrency :: "int option"

definition baseName :: "string \<Rightarrow> string" where
  \<comment> \<open>\<open>filePath.split(/[/\\]/).pop() || ""\<close>\<close>
  "baseName path = rev (takeWhile (\<lambda>c. c \<noteq> CHR ''/'' \<and> c \<noteq> CHR 0x5C) (rev path))"

definition definedResults :: "chunkResult option option list \<Rightarrow> chunkResult option list" where
  \<comment> \<open>an entry of the dispatcher's array as the loop's \<open>!r\<close> sees it: a hole and an
      \<open>undefined\<close> result are both falsy\<close>
  "definedResults rs = map (\<lambda>r. case r of None \<Rightarrow> None | Some x \<Rightarrow> x) rs"

definition initialResult :: "string \<Rightarrow> directPdfResult" where
  \<comment> \<open>the object \<open>result\<close> starts as\<close>
  "initialResult path =
     \<lparr>success = False, fileName = baseName path, filePath = path, questions = [],
      metadata = \<lparr>totalQuestions = 0, skippedReason = None\<rparr>, errors = []\<rparr>"

definition chunkWorker :: "environment \<Rightarrow> options \<Rightarrow> chunk \<Rightarrow> nat \<Rightarrow> error + chunkResult option" where
  \<comment> \<open>\<open>processChunk\<close> as the dispatcher's worker: its body catches every error, so
      the call always comes to a result\<close>
  "chunkWorker env opts chunk chunkIndex =
     Inr (processChunk (builtins env) (llm env)
            (case maxRetriesPerChunk opts of None \<Rightarrow> 1 | Some n \<Rightarrow> n) chunk chunkIndex)"

definition normalizedContext :: "examContext \<Rightarrow> examContext" where
  \<comment> \<open>the shallow copy \<open>examContext\<close> with the allowed years normalised\<close>
  "normalizedContext examContextInput =
     examContextInput\<lparr>allowedYears := Some (normalizeYears (allowedYears examContextInput))\<rparr>"

definition processPdfWithClaude ::
  "environment \<Rightarrow> string \<Rightarrow> examContext \<Rightarrow> options \<Rightarrow> directPdfResult option" where
  "processPdfWithClaude env path examContextInput opts =
     (let examCtx = normalizedContext examContextInput;
          result = initialResult path;
          filterCheck = shouldProcessPdf (baseName path) examCtx
      in if \<not> shouldProcess filterCheck
         then Some (result
                \<lparr>success := False,
                 metadata := (metadata result)\<lparr>skippedReason := reason filterCheck\<rparr>,
                 errors := errors result @
                   [''Skipped: '' @ (case reason filterCheck of
                                      None \<Rightarrow> ''undefined'' | Some s \<Rightarrow> s)]\<rparr>)
         else
           (case pdfPageCount env of
              Inl e \<Rightarrow> Some (catchFailure result e)
            | Inr totalPages \<Rightarrow>
                (case splitPdfIntoChunks totalPages
                        (case pagesPerChunk opts of None \<Rightarrow> 10 | Some n \<Rightarrow> n) of
                   None \<Rightarrow> None
                 | Some chunks \<Rightarrow>
                     if chunks = [] then Some (catchFailure result ''No chunks produced from PDF'')
                     else
                       (case runWithConcurrency chunks (chunkWorker env opts)
                               (case chunkConcurrency opts of None \<Rightarrow> 4 | Some n \<Rightarrow> n)
                               (schedule env) of
                          Pending \<Rightarrow> None
                        | Rejected e \<Rightarrow> Some (catchFailure result e)
                        | Fulfilled chunkResults \<Rightarrow>
                            Some (reconcile (builtins env) examCtx chunks
                                    (definedResults chunkResults) result)))))"


definition exampleEnvironment :: "int \<Rightarrow> (nat \<Rightarrow> int \<Rightarrow> error + js option) \<Rightarrow> environment" where
  "exampleEnvironment pages service =
     \<lparr>builtins = exampleRuntime, pdfPageCount = Inr pages, llm = service,
      schedule = [0, 1, 2, 3]\<rparr>"

section \<open>Invariants used in the proofs\<close>

text \<open>
  What holds of the dispatcher's pool at every step: the results array is no
  longer than the item list, every stored result is what the worker returned
  for that index, and every awaited index is an index of the item list.
\<close>

definition poolSound :: "'a list \<Rightarrow> ('a \<Rightarrow> nat \<Rightarrow> error + 'r) \<Rightarrow> 'r pool \<Rightarrow> bool" where
  "poolSound items worker p =
     (length (results p) \<le> length items
      \<and> (\<forall>i r. i < length (results p) \<and> results p ! i = Some r \<longrightarrow> worker (items ! i) i = Inr r)
      \<and> (\<forall>i. Awaiting i \<in> set (active p) \<longrightarrow> i < length items))"







text \<open>
  The second invariant of the pool: every index already taken has its result
  stored or is being awaited, and a runner has returned only after the indices
  ran out.
\<close>

definition poolComplete :: "'a list \<Rightarrow> 'r pool \<Rightarrow> bool" where
  "poolComplete items p =
     ((\<forall>i. i < idx p \<and> i < length items
           \<longrightarrow> (i < length (results p) \<and> results p ! i \<noteq> None) \<or> Awaiting i \<in> set (active p))
      \<and> (Returned \<in> set (active p) \<longrightarrow> length items \<le> idx p))"

definition failingWorker :: "string \<Rightarrow> nat \<Rightarrow> error + string" where
  \<comment> \<open>a worker for the worked examples: it throws on the item \<open>b\<close>\<close>
  "failingWorker item i = (if item = ''b'' then Inl ''boom'' else Inr (item @ ''!''))"


section \<open>Properties of year normalisation\<close>












section \<open>Properties of the segmenter\<close>

lemma splitLoop_spec:
  assumes S: "1 \<le> S"
  shows "\<exists>us. splitLoop P S start out = Some (out @ us)
           \<and> concat (map unitPages us) = [start + 1 .. P]
           \<and> list_all (\<lambda>u. 1 \<le> unitLength u \<and> unitLength u \<le> S) us
           \<and> list_all (\<lambda>u. unitLength u = S) (butlast us)
           \<and> (us = [] \<longleftrightarrow> P \<le> start)"
proof (induction "nat (P - start)" arbitrary: start out rule: less_induct)
  case less
  show ?case
  proof (cases "start < P")
    case False
    then have "splitLoop P S start out = Some (out @ [])"
      by (subst splitLoop.simps) simp
    moreover from False have "[start + 1 .. P] = []" by simp
    ultimately show ?thesis using False by auto
  next
    case True
    define e where "e = min (start + S - 1) (P - 1)"
    define u where "u = \<lparr> pageIndices = map (\<lambda>i. start + int i) [0 ..< nat (e - start + 1)],
                           fromPage = start + 1, toPage = e + 1 \<rparr>"
    have step: "splitLoop P S start out = splitLoop P S (start + S) (out @ [u])"
      using True by (subst splitLoop.simps) (simp add: u_def e_def)
    have "nat (P - (start + S)) < nat (P - start)"
      using True S by simp
    from less[OF this, of "out @ [u]"] obtain us where
      run: "splitLoop P S (start + S) (out @ [u]) = Some ((out @ [u]) @ us)" and
      cover: "concat (map unitPages us) = [start + S + 1 .. P]" and
      len: "list_all (\<lambda>u. 1 \<le> unitLength u \<and> unitLength u \<le> S) us" and
      full: "list_all (\<lambda>u. unitLength u = S) (butlast us)" and
      emp: "us = [] \<longleftrightarrow> P \<le> start + S"
      by blast
    have ulen: "unitLength u = e - start + 1"
      by (simp add: unitLength_def u_def)
    have e: "start \<le> e" "e \<le> start + S - 1" "e + 1 \<le> P"
      using True S by (simp_all add: e_def)
    have upages: "unitPages u @ [start + S + 1 .. P] = [start + 1 .. P]"
    proof (cases "start + S \<le> P")
      case True
      then have "e = start + S - 1" by (simp add: e_def)
      then have "unitPages u = [start + 1 .. start + S]"
        by (simp add: unitPages_def u_def)
      moreover have "[start + 1 .. P] = [start + 1 .. start + S] @ [start + S + 1 .. P]"
        using S True by (intro upto_split2) simp_all
      ultimately show ?thesis by simp
    next
      case False
      then have "e = P - 1" by (simp add: e_def)
      then have "unitPages u = [start + 1 .. P]"
        by (simp add: unitPages_def u_def)
      moreover from False have "[start + S + 1 .. P] = []" by simp
      ultimately show ?thesis by simp
    qed
    have ufull: "unitLength u = S" if "us \<noteq> []"
    proof -
      from that emp have "start + S < P" by simp
      then have "e = start + S - 1" by (simp add: e_def)
      then show ?thesis by (simp add: ulen)
    qed
    have "splitLoop P S start out = Some (out @ (u # us))"
      using step run by simp
    moreover have "concat (map unitPages (u # us)) = [start + 1 .. P]"
      using cover upages by simp
    moreover have "list_all (\<lambda>u. 1 \<le> unitLength u \<and> unitLength u \<le> S) (u # us)"
      using len e by (simp add: ulen)
    moreover have "list_all (\<lambda>u. unitLength u = S) (butlast (u # us))"
      using full ufull by simp
    moreover have "(u # us = []) \<longleftrightarrow> P \<le> start"
      using True by simp
    ultimately show ?thesis by blast
  qed
qed

text \<open>
  C2. For a document of \<open>P \<ge> 1\<close> pages and a chunk size \<open>S \<ge> 1\<close>,
  \<open>splitPdfIntoChunks\<close> returns a non-empty ordered list of units whose page
  ranges, laid end to end, are exactly the pages \<open>1, \<dots>, P\<close> in order (no gap, no
  overlap); every unit has between 1 and \<open>S\<close> pages, and every unit but the last
  has exactly \<open>S\<close>.
\<close>

theorem splitPdfIntoChunks_partition:
  assumes "1 \<le> P" and "1 \<le> S"
  shows "\<exists>us. splitPdfIntoChunks P S = Some us
           \<and> us \<noteq> []
           \<and> concat (map unitPages us) = [1 .. P]
           \<and> list_all (\<lambda>u. 1 \<le> unitLength u \<and> unitLength u \<le> S) us
           \<and> list_all (\<lambda>u. unitLength u = S) (butlast us)"
proof -
  from splitLoop_spec[OF assms(2), of P 0 "[]"] obtain us where
    "splitLoop P S 0 [] = Some ([] @ us)"
    "concat (map unitPages us) = [0 + 1 .. P]"
    "list_all (\<lambda>u. 1 \<le> unitLength u \<and> unitLength u \<le> S) us"
    "list_all (\<lambda>u. unitLength u = S) (butlast us)"
    "us = [] \<longleftrightarrow> P \<le> 0"
    by blast
  then show ?thesis
    using assms(1) by (auto simp: splitPdfIntoChunks_def)
qed

lemma splitPdfIntoChunks_20_8:
  "splitPdfIntoChunks 20 8 = Some
     [\<lparr>pageIndices = [0, 1, 2, 3, 4, 5, 6, 7], fromPage = 1, toPage = 8\<rparr>,
      \<lparr>pageIndices = [8, 9, 10, 11, 12, 13, 14, 15], fromPage = 9, toPage = 16\<rparr>,
      \<lparr>pageIndices = [16, 17, 18, 19], fromPage = 17, toPage = 20\<rparr>]"
  by (simp add: splitPdfIntoChunks_def splitLoop.simps upt_rec)

theorem splitPdfIntoChunks_partition_witness:
  "(1::int) \<le> 20 \<and> (1::int) \<le> 8
   \<and> splitPdfIntoChunks 20 8 = Some
        [\<lparr>pageIndices = [0, 1, 2, 3, 4, 5, 6, 7], fromPage = 1, toPage = 8\<rparr>,
         \<lparr>pageIndices = [8, 9, 10, 11, 12, 13, 14, 15], fromPage = 9, toPage = 16\<rparr>,
         \<lparr>pageIndices = [16, 17, 18, 19], fromPage = 17, toPage = 20\<rparr>]
   \<and> (\<exists>us. splitPdfIntoChunks 20 8 = Some us
           \<and> us \<noteq> []
           \<and> concat (map unitPages us) = [1 .. 20]
           \<and> list_all (\<lambda>u. 1 \<le> unitLength u \<and> unitLength u \<le> 8) us
           \<and> list_all (\<lambda>u. unitLength u = 8) (butlast us))"
proof -
  have p: "(1::int) \<le> 20" and s: "(1::int) \<le> 8" by simp_all
  show ?thesis
    using splitPdfIntoChunks_partition[OF p s] splitPdfIntoChunks_20_8 by simp
qed

section \<open>Properties of the filename pre-filter\<close>

lemma searchFrom_Some:
  "searchFrom m prev s = Some g \<Longrightarrow> \<exists>p r. m p r = Some g"
  by (induction s arbitrary: prev) (auto split: option.splits)

lemma matchYear20_length: "matchYear20 p r = Some g \<Longrightarrow> length g = 4"
  by (auto simp: matchYear20_def split: list.splits if_splits)

lemma matchTwoDigit_length: "matchTwoDigit p r = Some g \<Longrightarrow> length g = 2"
  by (auto simp: matchTwoDigit_def split: list.splits if_splits)

lemma matchYearWord_length: "matchYearWord p r = Some g \<Longrightarrow> 2 \<le> length g"
  by (auto simp: matchYearWord_def Let_def split: if_splits)

lemma matchPaper_length: "matchPaper p r = Some g \<Longrightarrow> length g = 4"
  by (auto simp: matchPaper_def split: list.splits if_splits)

lemma expandYear_nonempty: "g \<noteq> [] \<Longrightarrow> expandYear g \<noteq> []"
  by (simp add: expandYear_def)

lemma extractYearFromFilename_patterns:
  "extractYearFromFilename fname =
     (case regexMatch matchYear20 fname of
        Some y \<Rightarrow> Some y
      | None \<Rightarrow>
     (case regexMatch matchTwoDigit fname of
        Some y \<Rightarrow> Some ((if twoDigitNumber y \<le> 30 then ''20'' else ''19'') @ y)
      | None \<Rightarrow>
     (case regexMatch matchYearWord fname of
        Some y \<Rightarrow> Some (expandYear y)
      | None \<Rightarrow>
     (case regexMatch matchPaper fname of
        Some y \<Rightarrow> Some y
      | None \<Rightarrow> None))))"
proof -
  have a: "expandYear y = y" if "regexMatch matchYear20 fname = Some y" for y
    using that searchFrom_Some[of matchYear20 None fname y] matchYear20_length
    by (auto simp: regexMatch_def expandYear_def)
  have b: "expandYear y = (if twoDigitNumber y \<le> 30 then ''20'' else ''19'') @ y"
    if "regexMatch matchTwoDigit fname = Some y" for y
    using that searchFrom_Some[of matchTwoDigit None fname y] matchTwoDigit_length
    by (auto simp: regexMatch_def expandYear_def)
  have c: "expandYear y = y" if "regexMatch matchPaper fname = Some y" for y
    using that searchFrom_Some[of matchPaper None fname y] matchPaper_length
    by (auto simp: regexMatch_def expandYear_def)
  show ?thesis
    by (simp add: extractYearFromFilename_def yearPatterns_def a b c split: option.splits)
qed

lemma extractYearFromFilename_nonempty:
  assumes "extractYearFromFilename fname = Some y"
  shows "y \<noteq> []"
proof -
  have ne: "g \<noteq> []" if "regexMatch m fname = Some g"
    and "m \<in> {matchYear20, matchTwoDigit, matchYearWord, matchPaper}" for m g
  proof -
    from that(1) obtain p r where "m p r = Some g"
      using searchFrom_Some[of m None fname g] by (auto simp: regexMatch_def)
    with that(2) show ?thesis
      using matchYear20_length matchTwoDigit_length matchYearWord_length matchPaper_length
      by fastforce
  qed
  from assms show ?thesis
    unfolding extractYearFromFilename_patterns
    by (auto split: option.splits dest!: ne simp: expandYear_nonempty)
qed

lemma find_map_Suc:
  "find P (map Suc xs) = map_option Suc (find (\<lambda>i. P (Suc i)) xs)"
  by (induction xs) auto

lemma searchFrom_find:
  assumes "\<And>i. i \<le> length s \<Longrightarrow>
             m (if i = 0 then prev else Some (s ! (i - 1))) (drop i s)
             = (if P i then Some (cap i) else None)"
    and "\<And>i. P i \<Longrightarrow> i < length s"
  shows "searchFrom m prev s = map_option cap (find P [0 ..< length s])"
  using assms
proof (induction s arbitrary: prev P cap)
  case Nil
  from Nil(2)[of 0] have "\<not> P 0" by auto
  with Nil(1)[of 0] show ?case by simp
next
  case (Cons c cs)
  have upt: "[0 ..< length (c # cs)] = 0 # map Suc [0 ..< length cs]"
    by (simp add: upt_conv_Cons map_Suc_upt del: upt_Suc)
  from Cons.prems(1)[of 0] have here: "m prev (c # cs) = (if P 0 then Some (cap 0) else None)"
    by simp
  have later: "m (if i = 0 then Some c else Some (cs ! (i - 1))) (drop i cs)
               = (if P (Suc i) then Some (cap (Suc i)) else None)" if "i \<le> length cs" for i
  proof -
    from that have "Suc i \<le> length (c # cs)" by simp
    from Cons.prems(1)[OF this] show ?thesis
      by (cases i) simp_all
  qed
  have bound: "i < length cs" if "P (Suc i)" for i
    using Cons.prems(2)[OF that] by simp
  from Cons.IH[of "Some c" "\<lambda>i. P (Suc i)" "\<lambda>i. cap (Suc i)", OF later bound]
  have ih: "searchFrom m (Some c) cs
            = map_option (\<lambda>i. cap (Suc i)) (find (\<lambda>i. P (Suc i)) [0 ..< length cs])"
    by simp
  show ?case
    unfolding upt using here ih
    by (simp add: find_map_Suc option.map_comp comp_def)
qed

lemma isDigit_isWordChar: "isDigit c \<Longrightarrow> isWordChar c"
  by (auto simp: isDigit_def isWordChar_def)

lemma drop_four:
  assumes "i + 4 \<le> length s"
  shows "drop i s = s ! i # s ! (i + 1) # s ! (i + 2) # s ! (i + 3) # drop (i + 4) s"
proof -
  have "drop i s = s ! i # drop (Suc i) s"
    using assms by (intro Cons_nth_drop_Suc[symmetric]) simp
  also have "drop (Suc i) s = s ! (i + 1) # drop (Suc (Suc i)) s"
    using assms Cons_nth_drop_Suc[of "Suc i" s] by simp
  also have "drop (Suc (Suc i)) s = s ! (i + 2) # drop (Suc (Suc (Suc i))) s"
    using assms Cons_nth_drop_Suc[of "Suc (Suc i)" s] by simp
  also have "drop (Suc (Suc (Suc i))) s = s ! (i + 3) # drop (i + 4) s"
    using assms Cons_nth_drop_Suc[of "Suc (Suc (Suc i))" s]
    by (simp add: numeral_3_eq_3 eval_nat_numeral)
  finally show ?thesis .
qed

lemma drop_two:
  assumes "i + 2 \<le> length s"
  shows "drop i s = s ! i # s ! (i + 1) # drop (i + 2) s"
proof -
  have "drop i s = s ! i # drop (Suc i) s"
    using assms by (intro Cons_nth_drop_Suc[symmetric]) simp
  also have "drop (Suc i) s = s ! (i + 1) # drop (i + 2) s"
    using assms Cons_nth_drop_Suc[of "Suc i" s] by simp
  finally show ?thesis .
qed

lemma boundary_before:
  assumes "isWordChar a" and "i \<le> length s"
  shows "atWordBoundary (if i = 0 then None else Some (s ! (i - 1))) (a # r)
         = (i = 0 \<or> \<not> isWordChar (s ! (i - 1)))"
  using assms by (auto simp: atWordBoundary_def)

lemma boundary_after:
  assumes "isWordChar d" and "j \<le> length s"
  shows "atWordBoundary (Some d) (drop j s) = (j = length s \<or> \<not> isWordChar (s ! j))"
proof (cases "j < length s")
  case True
  then have "drop j s = s ! j # drop (Suc j) s" by (simp add: Cons_nth_drop_Suc)
  with assms True show ?thesis by (simp add: atWordBoundary_def)
next
  case False
  with assms show ?thesis by (simp add: atWordBoundary_def)
qed

lemma short_no_year20: "length r < 4 \<Longrightarrow> matchYear20 p r = None"
  by (auto simp: matchYear20_def split: list.splits)

lemma short_no_twoDigit: "length r < 2 \<Longrightarrow> matchTwoDigit p r = None"
  by (auto simp: matchTwoDigit_def split: list.splits)

lemma short_no_paper: "length r < 4 \<Longrightarrow> matchPaper p r = None"
  by (auto simp: matchPaper_def split: list.splits)

lemma isWordChar_two: "isWordChar CHR ''2''"
  by (simp add: isWordChar_def)

lemma matchYear20_at:
  assumes "i \<le> length s"
  shows "matchYear20 (if i = 0 then None else Some (s ! (i - 1))) (drop i s)
         = (if year20At s i then Some (take 4 (drop i s)) else None)"
proof (cases "i + 4 \<le> length s")
  case False
  then have "length (drop i s) < 4" by simp
  from short_no_year20[OF this] False show ?thesis by (simp add: year20At_def)
next
  case True
  define p where "p = (if i = 0 then None else Some (s ! (i - 1)))"
  define a where "a = s ! i"
  define b where "b = s ! (i + 1)"
  define c where "c = s ! (i + 2)"
  define d where "d = s ! (i + 3)"
  define r where "r = drop (i + 4) s"
  define before where "before = (i = 0 \<or> \<not> isWordChar (s ! (i - 1)))"
  define after where "after = (i + 4 = length s \<or> \<not> isWordChar (s ! (i + 4)))"
  have dr: "drop i s = a # b # c # d # r"
    unfolding a_def b_def c_def d_def r_def by (rule drop_four[OF True])
  have b1: "atWordBoundary p (a # b # c # d # r) = before" if "isWordChar a"
    unfolding p_def before_def by (rule boundary_before[OF that assms])
  have b2: "atWordBoundary (Some d) r = after" if "isWordChar d"
    unfolding r_def after_def by (rule boundary_after[OF that True])
  have y: "year20At s i
           = (a = CHR ''2'' \<and> b = CHR ''0'' \<and> isDigit c \<and> isDigit d \<and> before \<and> after)"
    unfolding year20At_def a_def b_def c_def d_def before_def after_def using True by simp
  have m: "matchYear20 p (a # b # c # d # r)
           = (if atWordBoundary p (a # b # c # d # r) \<and> a = CHR ''2'' \<and> b = CHR ''0''
                 \<and> isDigit c \<and> isDigit d \<and> atWordBoundary (Some d) r
              then Some [a, b, c, d] else None)"
    by (simp add: matchYear20_def)
  have "matchYear20 p (a # b # c # d # r) = (if year20At s i then Some [a, b, c, d] else None)"
  proof (cases "a = CHR ''2'' \<and> isDigit d")
    case False
    then show ?thesis unfolding m y by auto
  next
    case shape: True
    then have "isWordChar a" "isWordChar d"
      by (simp_all add: isWordChar_two isDigit_isWordChar)
    then show ?thesis unfolding m y by (simp add: b1 b2 conj_commute)
  qed
  then show ?thesis
    unfolding p_def[symmetric] dr by simp
qed

lemma matchTwoDigit_at:
  assumes "i \<le> length s"
  shows "matchTwoDigit (if i = 0 then None else Some (s ! (i - 1))) (drop i s)
         = (if twoDigitsAt s i then Some (take 2 (drop i s)) else None)"
proof (cases "i + 2 \<le> length s")
  case False
  then have "length (drop i s) < 2" by simp
  from short_no_twoDigit[OF this] False show ?thesis by (simp add: twoDigitsAt_def)
next
  case True
  define p where "p = (if i = 0 then None else Some (s ! (i - 1)))"
  define a where "a = s ! i"
  define b where "b = s ! (i + 1)"
  define r where "r = drop (i + 2) s"
  define before where "before = (i = 0 \<or> \<not> isWordChar (s ! (i - 1)))"
  define after where "after = (i + 2 = length s \<or> \<not> isWordChar (s ! (i + 2)))"
  have dr: "drop i s = a # b # r"
    unfolding a_def b_def r_def by (rule drop_two[OF True])
  have b1: "atWordBoundary p (a # b # r) = before" if "isWordChar a"
    unfolding p_def before_def by (rule boundary_before[OF that assms])
  have b2: "atWordBoundary (Some b) r = after" if "isWordChar b"
    unfolding r_def after_def by (rule boundary_after[OF that True])
  have y: "twoDigitsAt s i = (isDigit a \<and> isDigit b \<and> before \<and> after)"
    unfolding twoDigitsAt_def a_def b_def before_def after_def using True by simp
  have m: "matchTwoDigit p (a # b # r)
           = (if atWordBoundary p (a # b # r) \<and> isDigit a \<and> isDigit b
                 \<and> atWordBoundary (Some b) r
              then Some [a, b] else None)"
    by (simp add: matchTwoDigit_def)
  have "matchTwoDigit p (a # b # r) = (if twoDigitsAt s i then Some [a, b] else None)"
  proof (cases "isDigit a \<and> isDigit b")
    case False
    then show ?thesis unfolding m y by auto
  next
    case shape: True
    then have "isWordChar a" "isWordChar b"
      by (simp_all add: isDigit_isWordChar)
    then show ?thesis unfolding m y by (simp add: b1 b2 conj_commute)
  qed
  then show ?thesis
    unfolding p_def[symmetric] dr by simp
qed

lemma startsWithIgnoreCase_take:
  assumes "lit \<noteq> []"
  shows "startsWithIgnoreCase lit r = (toLowerCase (take (length lit) r) = lit)"
proof (cases "length lit \<le> length r")
  case True
  then show ?thesis by (simp add: startsWithIgnoreCase_def)
next
  case False
  then have "length (toLowerCase (take (length lit) r)) \<noteq> length lit"
    by (simp add: toLowerCase_def)
  then have "toLowerCase (take (length lit) r) \<noteq> lit" by auto
  with False show ?thesis by (simp add: startsWithIgnoreCase_def)
qed

lemma startsWith_year:
  "startsWithIgnoreCase ''year'' r = (toLowerCase (take 4 r) = ''year'')"
proof -
  have ne: "''year'' \<noteq> []" and l: "length ''year'' = 4" by simp_all
  from startsWithIgnoreCase_take[OF ne, of r] show ?thesis unfolding l .
qed

lemma startsWith_paper:
  "startsWithIgnoreCase ''paper'' r = (toLowerCase (take 5 r) = ''paper'')"
proof -
  have ne: "''paper'' \<noteq> []" and l: "length ''paper'' = 5" by simp_all
  from startsWithIgnoreCase_take[OF ne, of r] show ?thesis unfolding l .
qed

lemma skipSeparator_drop:
  "skipSeparator (drop j s) = drop (afterSeparator s j) s"
proof (cases "j < length s")
  case True
  then have "drop j s = s ! j # drop (Suc j) s" by (simp add: Cons_nth_drop_Suc)
  with True show ?thesis by (simp add: skipSeparator_def afterSeparator_def)
next
  case False
  then show ?thesis by (simp add: skipSeparator_def afterSeparator_def)
qed

lemma toLowerCase_length: "length (toLowerCase s) = length s"
  by (simp add: toLowerCase_def)

lemma matchYearWord_at:
  "matchYearWord p (drop i s)
   = (if yearWordAt s i then Some (digitsFrom s (afterSeparator s (i + 4))) else None)"
proof -
  have sk: "skipSeparator (drop 4 (drop i s)) = drop (afterSeparator s (i + 4)) s"
    using skipSeparator_drop[of "i + 4" s] by (simp add: add.commute)
  show ?thesis
    unfolding matchYearWord_def sk startsWith_year
    by (simp add: yearWordAt_def digitsFrom_def Let_def)
qed

lemma matchPaper_at:
  assumes "i \<le> length s"
  shows "matchPaper p (drop i s) = (if paperAt s i then Some (take 4 (drop i s)) else None)"
proof (cases "i + 4 \<le> length s")
  case False
  then have "length (drop i s) < 4" by simp
  from short_no_paper[OF this] False show ?thesis by (simp add: paperAt_def)
next
  case True
  define a where "a = s ! i"
  define b where "b = s ! (i + 1)"
  define c where "c = s ! (i + 2)"
  define d where "d = s ! (i + 3)"
  define r where "r = drop (i + 4) s"
  have dr: "drop i s = a # b # c # d # r"
    unfolding a_def b_def c_def d_def r_def by (rule drop_four[OF True])
  have sk: "skipSeparator r = drop (afterSeparator s (i + 4)) s"
    unfolding r_def by (rule skipSeparator_drop)
  have y: "paperAt s i
           = (isDigit a \<and> isDigit b \<and> isDigit c \<and> isDigit d
              \<and> toLowerCase (take 5 (drop (afterSeparator s (i + 4)) s)) = ''paper'')"
    unfolding paperAt_def a_def b_def c_def d_def using True by simp
  have "matchPaper p (a # b # c # d # r) = (if paperAt s i then Some [a, b, c, d] else None)"
    unfolding y by (simp add: matchPaper_def sk startsWith_paper)
  then show ?thesis
    unfolding dr by simp
qed

lemma regexMatch_year20:
  "regexMatch matchYear20 s = map_option (\<lambda>i. take 4 (drop i s)) (firstPosition (year20At s) s)"
  unfolding regexMatch_def firstPosition_def
  by (rule searchFrom_find) (simp_all add: matchYear20_at year20At_def)

lemma regexMatch_twoDigit:
  "regexMatch matchTwoDigit s = map_option (\<lambda>i. take 2 (drop i s)) (firstPosition (twoDigitsAt s) s)"
  unfolding regexMatch_def firstPosition_def
  by (rule searchFrom_find) (simp_all add: matchTwoDigit_at twoDigitsAt_def)

lemma yearWordAt_bound: "yearWordAt s i \<Longrightarrow> i < length s"
proof (rule ccontr)
  assume y: "yearWordAt s i" and "\<not> i < length s"
  then have "take 4 (drop i s) = []" by simp
  with y show False by (simp add: yearWordAt_def toLowerCase_def)
qed

lemma regexMatch_yearWord:
  "regexMatch matchYearWord s
   = map_option (\<lambda>i. digitsFrom s (afterSeparator s (i + 4))) (firstPosition (yearWordAt s) s)"
  unfolding regexMatch_def firstPosition_def
  by (rule searchFrom_find) (simp_all add: matchYearWord_at yearWordAt_bound)

lemma regexMatch_paper:
  "regexMatch matchPaper s = map_option (\<lambda>i. take 4 (drop i s)) (firstPosition (paperAt s) s)"
  unfolding regexMatch_def firstPosition_def
  by (rule searchFrom_find) (simp_all add: matchPaper_at paperAt_def)

lemma extractYearFromFilename_positions:
  "extractYearFromFilename fname =
     (case firstPosition (year20At fname) fname of
        Some i \<Rightarrow> Some (take 4 (drop i fname))
      | None \<Rightarrow>
     (case firstPosition (twoDigitsAt fname) fname of
        Some i \<Rightarrow>
          Some ((if twoDigitNumber (take 2 (drop i fname)) \<le> 30 then ''20'' else ''19'')
                @ take 2 (drop i fname))
      | None \<Rightarrow>
     (case firstPosition (yearWordAt fname) fname of
        Some i \<Rightarrow>
          (let digits = digitsFrom fname (afterSeparator fname (i + 4))
           in Some (if length digits = 2
                    then (if twoDigitNumber digits \<le> 30 then ''20'' else ''19'') @ digits
                    else digits))
      | None \<Rightarrow>
     (case firstPosition (paperAt fname) fname of
        Some i \<Rightarrow> Some (take 4 (drop i fname))
      | None \<Rightarrow> None))))"
  unfolding extractYearFromFilename_patterns
    regexMatch_year20 regexMatch_twoDigit regexMatch_yearWord regexMatch_paper
  by (simp add: expandYear_def Let_def split: option.splits)

lemma shouldProcessPdf_by_detected_year:
  "shouldProcessPdf fname examCtx =
     (if allowedYears examCtx = None \<or> allowedYears examCtx = Some []
      then \<lparr>shouldProcess = True, reason = None, detectedYear = None\<rparr>
      else (case extractYearFromFilename fname of
              Some y \<Rightarrow>
                if y \<in> set (the (allowedYears examCtx))
                then \<lparr>shouldProcess = True,
                      reason = Some (''Year '' @ y @ '' is in allowed years: ''
                                     @ join '', '' (the (allowedYears examCtx))),
                      detectedYear = Some y\<rparr>
                else \<lparr>shouldProcess = False,
                      reason = Some (''Year '' @ y @ '' not in allowed years: ''
                                     @ join '', '' (the (allowedYears examCtx))),
                      detectedYear = Some y\<rparr>
            | None \<Rightarrow>
                if strictYearFiltering examCtx
                then \<lparr>shouldProcess = False,
                      reason = Some ''No year detected in filename, strict filtering enabled'',
                      detectedYear = None\<rparr>
                else \<lparr>shouldProcess = True,
                      reason = Some ''No year detected, strict filtering disabled'',
                      detectedYear = None\<rparr>))"
proof (cases "extractYearFromFilename fname")
  case None
  then show ?thesis
    by (simp add: shouldProcessPdf_def truthyString_def split: option.splits)
next
  case (Some y)
  then have "y \<noteq> []" by (rule extractYearFromFilename_nonempty)
  with Some show ?thesis
    by (simp add: shouldProcessPdf_def truthyString_def split: option.splits)
qed

text \<open>
  C3, as the source has it. The pre-filter decision table: with no allowed years
  configured (absent or empty) \<open>shouldProcessPdf\<close> answers "process" with no
  reason. Otherwise, when a year is detected in the filename, it answers
  "process" if the year is one of the allowed years and "skip" with the reason
  \<open>Year \<dots> not in allowed years: \<dots>\<close> if not; when no year is detected, it answers
  "process" when strict filtering is off and "skip" when it is on, with the
  reasons of the source. The detected year comes from the first of four
  patterns that occurs in the filename, and from the leftmost occurrence of that
  pattern:
  \<^enum> \<open>20NN\<close> with no letter, digit or underscore directly before or after it (no
    other four-digit number is a year for this pattern);
  \<^enum> two digits with no letter, digit or underscore directly before or after
    them, prefixed by \<open>20\<close> when at most 30 and by \<open>19\<close> otherwise;
  \<^enum> \<open>year\<close> in any case, an optional underscore or hyphen, and two to four
    digits, as many as stand there (two digits get the same century rule);
  \<^enum> four digits, an optional underscore or hyphen, and \<open>paper\<close> in any case.
\<close>

theorem shouldProcessPdf_decision_table:
  "shouldProcessPdf fname examCtx =
     (if allowedYears examCtx = None \<or> allowedYears examCtx = Some []
      then \<lparr>shouldProcess = True, reason = None, detectedYear = None\<rparr>
      else (case extractYearFromFilename fname of
              Some y \<Rightarrow>
                if y \<in> set (the (allowedYears examCtx))
                then \<lparr>shouldProcess = True,
                      reason = Some (''Year '' @ y @ '' is in allowed years: ''
                                     @ join '', '' (the (allowedYears examCtx))),
                      detectedYear = Some y\<rparr>
                else \<lparr>shouldProcess = False,
                      reason = Some (''Year '' @ y @ '' not in allowed years: ''
                                     @ join '', '' (the (allowedYears examCtx))),
                      detectedYear = Some y\<rparr>
            | None \<Rightarrow>
                if strictYearFiltering examCtx
                then \<lparr>shouldProcess = False,
                      reason = Some ''No year detected in filename, strict filtering enabled'',
                      detectedYear = None\<rparr>
                else \<lparr>shouldProcess = True,
                      reason = Some ''No year detected, strict filtering disabled'',
                      detectedYear = None\<rparr>))
   \<and> extractYearFromFilename fname =
     (case firstPosition (year20At fname) fname of
        Some i \<Rightarrow> Some (take 4 (drop i fname))
      | None \<Rightarrow>
     (case firstPosition (twoDigitsAt fname) fname of
        Some i \<Rightarrow>
          Some ((if twoDigitNumber (take 2 (drop i fname)) \<le> 30 then ''20'' else ''19'')
                @ take 2 (drop i fname))
      | None \<Rightarrow>
     (case firstPosition (yearWordAt fname) fname of
        Some i \<Rightarrow>
          (let digits = digitsFrom fname (afterSeparator fname (i + 4))
           in Some (if length digits = 2
                    then (if twoDigitNumber digits \<le> 30 then ''20'' else ''19'') @ digits
                    else digits))
      | None \<Rightarrow>
     (case firstPosition (paperAt fname) fname of
        Some i \<Rightarrow> Some (take 4 (drop i fname))
      | None \<Rightarrow> None))))"
  using shouldProcessPdf_by_detected_year[of fname examCtx]
    extractYearFromFilename_positions[of fname]
  by (rule conjI)

lemma pattern_position_examples:
  "firstPosition (year20At ''ssc-cgl-2023.pdf'') ''ssc-cgl-2023.pdf'' = Some 8"
  "firstPosition (year20At ''2021-2022.pdf'') ''2021-2022.pdf'' = Some 0"
  "firstPosition (year20At ''chsl 85.pdf'') ''chsl 85.pdf'' = None"
  "firstPosition (twoDigitsAt ''chsl 85.pdf'') ''chsl 85.pdf'' = Some 5"
  "firstPosition (year20At ''chsl-23.pdf'') ''chsl-23.pdf'' = None"
  "firstPosition (twoDigitsAt ''chsl-23.pdf'') ''chsl-23.pdf'' = Some 5"
  "firstPosition (year20At ''mock_year_2019_set1.pdf'') ''mock_year_2019_set1.pdf'' = None"
  "firstPosition (twoDigitsAt ''mock_year_2019_set1.pdf'') ''mock_year_2019_set1.pdf'' = None"
  "firstPosition (yearWordAt ''mock_year_2019_set1.pdf'') ''mock_year_2019_set1.pdf'' = Some 5"
  "firstPosition (year20At ''mock_YEAR-24_set1.pdf'') ''mock_YEAR-24_set1.pdf'' = None"
  "firstPosition (twoDigitsAt ''mock_YEAR-24_set1.pdf'') ''mock_YEAR-24_set1.pdf'' = None"
  "firstPosition (yearWordAt ''mock_YEAR-24_set1.pdf'') ''mock_YEAR-24_set1.pdf'' = Some 5"
  "firstPosition (year20At ''Year123.pdf'') ''Year123.pdf'' = None"
  "firstPosition (twoDigitsAt ''Year123.pdf'') ''Year123.pdf'' = None"
  "firstPosition (yearWordAt ''Year123.pdf'') ''Year123.pdf'' = Some 0"
  "firstPosition (year20At ''year_20235.pdf'') ''year_20235.pdf'' = None"
  "firstPosition (twoDigitsAt ''year_20235.pdf'') ''year_20235.pdf'' = None"
  "firstPosition (yearWordAt ''year_20235.pdf'') ''year_20235.pdf'' = Some 0"
  "firstPosition (year20At ''ssc_cgl_2023_paper.pdf'') ''ssc_cgl_2023_paper.pdf'' = None"
  "firstPosition (twoDigitsAt ''ssc_cgl_2023_paper.pdf'') ''ssc_cgl_2023_paper.pdf'' = None"
  "firstPosition (yearWordAt ''ssc_cgl_2023_paper.pdf'') ''ssc_cgl_2023_paper.pdf'' = None"
  "firstPosition (paperAt ''ssc_cgl_2023_paper.pdf'') ''ssc_cgl_2023_paper.pdf'' = Some 8"
  "firstPosition (year20At ''1998-Paper.pdf'') ''1998-Paper.pdf'' = None"
  "firstPosition (twoDigitsAt ''1998-Paper.pdf'') ''1998-Paper.pdf'' = None"
  "firstPosition (yearWordAt ''1998-Paper.pdf'') ''1998-Paper.pdf'' = None"
  "firstPosition (paperAt ''1998-Paper.pdf'') ''1998-Paper.pdf'' = Some 0"
  "firstPosition (year20At ''year_2019 ssc 2023.pdf'') ''year_2019 ssc 2023.pdf'' = Some 14"
  "firstPosition (year20At ''mock-test.pdf'') ''mock-test.pdf'' = None"
  "firstPosition (twoDigitsAt ''mock-test.pdf'') ''mock-test.pdf'' = None"
  "firstPosition (yearWordAt ''mock-test.pdf'') ''mock-test.pdf'' = None"
  "firstPosition (paperAt ''mock-test.pdf'') ''mock-test.pdf'' = None"
  "firstPosition (year20At ''ssc_cgl_2023.pdf'') ''ssc_cgl_2023.pdf'' = None"
  "firstPosition (twoDigitsAt ''ssc_cgl_2023.pdf'') ''ssc_cgl_2023.pdf'' = None"
  "firstPosition (yearWordAt ''ssc_cgl_2023.pdf'') ''ssc_cgl_2023.pdf'' = None"
  "firstPosition (paperAt ''ssc_cgl_2023.pdf'') ''ssc_cgl_2023.pdf'' = None"
  "firstPosition (year20At ''x2023.pdf'') ''x2023.pdf'' = None"
  "firstPosition (twoDigitsAt ''x2023.pdf'') ''x2023.pdf'' = None"
  "firstPosition (yearWordAt ''x2023.pdf'') ''x2023.pdf'' = None"
  "firstPosition (paperAt ''x2023.pdf'') ''x2023.pdf'' = None"
  by code_simp+

lemma extractYearFromFilename_examples:
  "extractYearFromFilename ''ssc-cgl-2023.pdf'' = Some ''2023''"
  "extractYearFromFilename ''2021-2022.pdf'' = Some ''2021''"
  "extractYearFromFilename ''chsl 85.pdf'' = Some ''1985''"
  "extractYearFromFilename ''chsl-23.pdf'' = Some ''2023''"
  "extractYearFromFilename ''mock_year_2019_set1.pdf'' = Some ''2019''"
  "extractYearFromFilename ''mock_YEAR-24_set1.pdf'' = Some ''2024''"
  "extractYearFromFilename ''Year123.pdf'' = Some ''123''"
  "extractYearFromFilename ''year_20235.pdf'' = Some ''2023''"
  "extractYearFromFilename ''ssc_cgl_2023_paper.pdf'' = Some ''2023''"
  "extractYearFromFilename ''1998-Paper.pdf'' = Some ''1998''"
  "extractYearFromFilename ''year_2019 ssc 2023.pdf'' = Some ''2023''"
  "extractYearFromFilename ''mock-test.pdf'' = None"
  "extractYearFromFilename ''ssc_cgl_2023.pdf'' = None"
  "extractYearFromFilename ''x2023.pdf'' = None"
  by code_simp+

theorem shouldProcessPdf_decision_table_rows:
  "shouldProcessPdf ''ssc-cgl-2019.pdf''
        \<lparr>allowedYears = Some [], strictYearFiltering = True\<rparr>
     = \<lparr>shouldProcess = True, reason = None, detectedYear = None\<rparr>
   \<and> shouldProcessPdf ''ssc-cgl-2023.pdf''
        \<lparr>allowedYears = Some [''2023'', ''2024''], strictYearFiltering = False\<rparr>
     = \<lparr>shouldProcess = True, reason = Some ''Year 2023 is in allowed years: 2023, 2024'', detectedYear = Some ''2023''\<rparr>
   \<and> shouldProcessPdf ''2021-2022.pdf''
        \<lparr>allowedYears = Some [''2023'', ''2024''], strictYearFiltering = False\<rparr>
     = \<lparr>shouldProcess = False, reason = Some ''Year 2021 not in allowed years: 2023, 2024'', detectedYear = Some ''2021''\<rparr>
   \<and> shouldProcessPdf ''chsl 85.pdf''
        \<lparr>allowedYears = Some [''2023'', ''2024''], strictYearFiltering = False\<rparr>
     = \<lparr>shouldProcess = False, reason = Some ''Year 1985 not in allowed years: 2023, 2024'', detectedYear = Some ''1985''\<rparr>
   \<and> shouldProcessPdf ''chsl-23.pdf''
        \<lparr>allowedYears = Some [''2023'', ''2024''], strictYearFiltering = False\<rparr>
     = \<lparr>shouldProcess = True, reason = Some ''Year 2023 is in allowed years: 2023, 2024'', detectedYear = Some ''2023''\<rparr>
   \<and> shouldProcessPdf ''mock_year_2019_set1.pdf''
        \<lparr>allowedYears = Some [''2023'', ''2024''], strictYearFiltering = False\<rparr>
     = \<lparr>shouldProcess = False, reason = Some ''Year 2019 not in allowed years: 2023, 2024'', detectedYear = Some ''2019''\<rparr>
   \<and> shouldProcessPdf ''mock_YEAR-24_set1.pdf''
        \<lparr>allowedYears = Some [''2023'', ''2024''], strictYearFiltering = False\<rparr>
     = \<lparr>shouldProcess = True, reason = Some ''Year 2024 is in allowed years: 2023, 2024'', detectedYear = Some ''2024''\<rparr>
   \<and> shouldProcessPdf ''Year123.pdf''
        \<lparr>allowedYears = Some [''2023'', ''2024''], strictYearFiltering = False\<rparr>
     = \<lparr>shouldProcess = False, reason = Some ''Year 123 not in allowed years: 2023, 2024'', detectedYear = Some ''123''\<rparr>
   \<and> shouldProcessPdf ''year_20235.pdf''
        \<lparr>allowedYears = Some [''2023'', ''2024''], strictYearFiltering = False\<rparr>
     = \<lparr>shouldProcess = True, reason = Some ''Year 2023 is in allowed years: 2023, 2024'', detectedYear = Some ''2023''\<rparr>
   \<and> shouldProcessPdf ''ssc_cgl_2023_paper.pdf''
        \<lparr>allowedYears = Some [''2023'', ''2024''], strictYearFiltering = False\<rparr>
     = \<lparr>shouldProcess = True, reason = Some ''Year 2023 is in allowed years: 2023, 2024'', detectedYear = Some ''2023''\<rparr>
   \<and> shouldProcessPdf ''1998-Paper.pdf''
        \<lparr>allowedYears = Some [''2023'', ''2024''], strictYearFiltering = False\<rparr>
     = \<lparr>shouldProcess = False, reason = Some ''Year 1998 not in allowed years: 2023, 2024'', detectedYear = Some ''1998''\<rparr>
   \<and> shouldProcessPdf ''year_2019 ssc 2023.pdf''
        \<lparr>allowedYears = Some [''2023'', ''2024''], strictYearFiltering = False\<rparr>
     = \<lparr>shouldProcess = True, reason = Some ''Year 2023 is in allowed years: 2023, 2024'', detectedYear = Some ''2023''\<rparr>
   \<and> shouldProcessPdf ''mock-test.pdf''
        \<lparr>allowedYears = Some [''2023'', ''2024''], strictYearFiltering = False\<rparr>
     = \<lparr>shouldProcess = True, reason = Some ''No year detected, strict filtering disabled'', detectedYear = None\<rparr>
   \<and> shouldProcessPdf ''mock-test.pdf''
        \<lparr>allowedYears = Some [''2023'', ''2024''], strictYearFiltering = True\<rparr>
     = \<lparr>shouldProcess = False, reason = Some ''No year detected in filename, strict filtering enabled'', detectedYear = None\<rparr>
   \<and> shouldProcessPdf ''ssc_cgl_2023.pdf''
        \<lparr>allowedYears = Some [''2023'', ''2024''], strictYearFiltering = True\<rparr>
     = \<lparr>shouldProcess = False, reason = Some ''No year detected in filename, strict filtering enabled'', detectedYear = None\<rparr>
   \<and> shouldProcessPdf ''x2023.pdf''
        \<lparr>allowedYears = Some [''2023'', ''2024''], strictYearFiltering = True\<rparr>
     = \<lparr>shouldProcess = False, reason = Some ''No year detected in filename, strict filtering enabled'', detectedYear = None\<rparr>"
proof -
  have y0: "extractYearFromFilename ''ssc-cgl-2023.pdf'' = Some ''2023''"
    using shouldProcessPdf_decision_table[of "''ssc-cgl-2023.pdf''"
        "\<lparr>allowedYears = Some [''2023'', ''2024''], strictYearFiltering = False\<rparr>", THEN conjunct2]
    by (simp add: pattern_position_examples digitsFrom_def afterSeparator_def twoDigitNumber_def
        digitVal_def isDigit_def)
  have y1: "extractYearFromFilename ''2021-2022.pdf'' = Some ''2021''"
    using shouldProcessPdf_decision_table[of "''2021-2022.pdf''"
        "\<lparr>allowedYears = Some [''2023'', ''2024''], strictYearFiltering = False\<rparr>", THEN conjunct2]
    by (simp add: pattern_position_examples digitsFrom_def afterSeparator_def twoDigitNumber_def
        digitVal_def isDigit_def)
  have y2: "extractYearFromFilename ''chsl 85.pdf'' = Some ''1985''"
    using shouldProcessPdf_decision_table[of "''chsl 85.pdf''"
        "\<lparr>allowedYears = Some [''2023'', ''2024''], strictYearFiltering = False\<rparr>", THEN conjunct2]
    by (simp add: pattern_position_examples digitsFrom_def afterSeparator_def twoDigitNumber_def
        digitVal_def isDigit_def)
  have y3: "extractYearFromFilename ''chsl-23.pdf'' = Some ''2023''"
    using shouldProcessPdf_decision_table[of "''chsl-23.pdf''"
        "\<lparr>allowedYears = Some [''2023'', ''2024''], strictYearFiltering = False\<rparr>", THEN conjunct2]
    by (simp add: pattern_position_examples digitsFrom_def afterSeparator_def twoDigitNumber_def
        digitVal_def isDigit_def)
  have y4: "extractYearFromFilename ''mock_year_2019_set1.pdf'' = Some ''2019''"
    using shouldProcessPdf_decision_table[of "''mock_year_2019_set1.pdf''"
        "\<lparr>allowedYears = Some [''2023'', ''2024''], strictYearFiltering = False\<rparr>", THEN conjunct2]
    by (simp add: pattern_position_examples digitsFrom_def afterSeparator_def twoDigitNumber_def
        digitVal_def isDigit_def)
  have y5: "extractYearFromFilename ''mock_YEAR-24_set1.pdf'' = Some ''2024''"
    using shouldProcessPdf_decision_table[of "''mock_YEAR-24_set1.pdf''"
        "\<lparr>allowedYears = Some [''2023'', ''2024''], strictYearFiltering = False\<rparr>", THEN conjunct2]
    by (simp add: pattern_position_examples digitsFrom_def afterSeparator_def twoDigitNumber_def
        digitVal_def isDigit_def)
  have y6: "extractYearFromFilename ''Year123.pdf'' = Some ''123''"
    using shouldProcessPdf_decision_table[of "''Year123.pdf''"
        "\<lparr>allowedYears = Some [''2023'', ''2024''], strictYearFiltering = False\<rparr>", THEN conjunct2]
    by (simp add: pattern_position_examples digitsFrom_def afterSeparator_def twoDigitNumber_def
        digitVal_def isDigit_def)
  have y7: "extractYearFromFilename ''year_20235.pdf'' = Some ''2023''"
    using shouldProcessPdf_decision_table[of "''year_20235.pdf''"
        "\<lparr>allowedYears = Some [''2023'', ''2024''], strictYearFiltering = False\<rparr>", THEN conjunct2]
    by (simp add: pattern_position_examples digitsFrom_def afterSeparator_def twoDigitNumber_def
        digitVal_def isDigit_def)
  have y8: "extractYearFromFilename ''ssc_cgl_2023_paper.pdf'' = Some ''2023''"
    using shouldProcessPdf_decision_table[of "''ssc_cgl_2023_paper.pdf''"
        "\<lparr>allowedYears = Some [''2023'', ''2024''], strictYearFiltering = False\<rparr>", THEN conjunct2]
    by (simp add: pattern_position_examples digitsFrom_def afterSeparator_def twoDigitNumber_def
        digitVal_def isDigit_def)
  have y9: "extractYearFromFilename ''1998-Paper.pdf'' = Some ''1998''"
    using shouldProcessPdf_decision_table[of "''1998-Paper.pdf''"
        "\<lparr>allowedYears = Some [''2023'', ''2024''], strictYearFiltering = False\<rparr>", THEN conjunct2]
    by (simp add: pattern_position_examples digitsFrom_def afterSeparator_def twoDigitNumber_def
        digitVal_def isDigit_def)
  have y10: "extractYearFromFilename ''year_2019 ssc 2023.pdf'' = Some ''2023''"
    using shouldProcessPdf_decision_table[of "''year_2019 ssc 2023.pdf''"
        "\<lparr>allowedYears = Some [''2023'', ''2024''], strictYearFiltering = False\<rparr>", THEN conjunct2]
    by (simp add: pattern_position_examples digitsFrom_def afterSeparator_def twoDigitNumber_def
        digitVal_def isDigit_def)
  have y11: "extractYearFromFilename ''mock-test.pdf'' = None"
    using shouldProcessPdf_decision_table[of "''mock-test.pdf''"
        "\<lparr>allowedYears = Some [''2023'', ''2024''], strictYearFiltering = False\<rparr>", THEN conjunct2]
    by (simp add: pattern_position_examples digitsFrom_def afterSeparator_def twoDigitNumber_def
        digitVal_def isDigit_def)
  have y12: "extractYearFromFilename ''ssc_cgl_2023.pdf'' = None"
    using shouldProcessPdf_decision_table[of "''ssc_cgl_2023.pdf''"
        "\<lparr>allowedYears = Some [''2023'', ''2024''], strictYearFiltering = False\<rparr>", THEN conjunct2]
    by (simp add: pattern_position_examples digitsFrom_def afterSeparator_def twoDigitNumber_def
        digitVal_def isDigit_def)
  have y13: "extractYearFromFilename ''x2023.pdf'' = None"
    using shouldProcessPdf_decision_table[of "''x2023.pdf''"
        "\<lparr>allowedYears = Some [''2023'', ''2024''], strictYearFiltering = False\<rparr>", THEN conjunct2]
    by (simp add: pattern_position_examples digitsFrom_def afterSeparator_def twoDigitNumber_def
        digitVal_def isDigit_def)
  show ?thesis
    using
      shouldProcessPdf_decision_table[of "''ssc-cgl-2019.pdf''"
        "\<lparr>allowedYears = Some [], strictYearFiltering = True\<rparr>", THEN conjunct1]
      shouldProcessPdf_decision_table[of "''ssc-cgl-2023.pdf''"
        "\<lparr>allowedYears = Some [''2023'', ''2024''], strictYearFiltering = False\<rparr>", THEN conjunct1]
      shouldProcessPdf_decision_table[of "''2021-2022.pdf''"
        "\<lparr>allowedYears = Some [''2023'', ''2024''], strictYearFiltering = False\<rparr>", THEN conjunct1]
      shouldProcessPdf_decision_table[of "''chsl 85.pdf''"
        "\<lparr>allowedYears = Some [''2023'', ''2024''], strictYearFiltering = False\<rparr>", THEN conjunct1]
      shouldProcessPdf_decision_table[of "''chsl-23.pdf''"
        "\<lparr>allowedYears = Some [''2023'', ''2024''], strictYearFiltering = False\<rparr>", THEN conjunct1]
      shouldProcessPdf_decision_table[of "''mock_year_2019_set1.pdf''"
        "\<lparr>allowedYears = Some [''2023'', ''2024''], strictYearFiltering = False\<rparr>", THEN conjunct1]
      shouldProcessPdf_decision_table[of "''mock_YEAR-24_set1.pdf''"
        "\<lparr>allowedYears = Some [''2023'', ''2024''], strictYearFiltering = False\<rparr>", THEN conjunct1]
      shouldProcessPdf_decision_table[of "''Year123.pdf''"
        "\<lparr>allowedYears = Some [''2023'', ''2024''], strictYearFiltering = False\<rparr>", THEN conjunct1]
      shouldProcessPdf_decision_table[of "''year_20235.pdf''"
        "\<lparr>allowedYears = Some [''2023'', ''2024''], strictYearFiltering = False\<rparr>", THEN conjunct1]
      shouldProcessPdf_decision_table[of "''ssc_cgl_2023_paper.pdf''"
        "\<lparr>allowedYears = Some [''2023'', ''2024''], strictYearFiltering = False\<rparr>", THEN conjunct1]
      shouldProcessPdf_decision_table[of "''1998-Paper.pdf''"
        "\<lparr>allowedYears = Some [''2023'', ''2024''], strictYearFiltering = False\<rparr>", THEN conjunct1]
      shouldProcessPdf_decision_table[of "''year_2019 ssc 2023.pdf''"
        "\<lparr>allowedYears = Some [''2023'', ''2024''], strictYearFiltering = False\<rparr>", THEN conjunct1]
      shouldProcessPdf_decision_table[of "''mock-test.pdf''"
        "\<lparr>allowedYears = Some [''2023'', ''2024''], strictYearFiltering = False\<rparr>", THEN conjunct1]
      shouldProcessPdf_decision_table[of "''mock-test.pdf''"
        "\<lparr>allowedYears = Some [''2023'', ''2024''], strictYearFiltering = True\<rparr>", THEN conjunct1]
      shouldProcessPdf_decision_table[of "''ssc_cgl_2023.pdf''"
        "\<lparr>allowedYears = Some [''2023'', ''2024''], strictYearFiltering = True\<rparr>", THEN conjunct1]
      shouldProcessPdf_decision_table[of "''x2023.pdf''"
        "\<lparr>allowedYears = Some [''2023'', ''2024''], strictYearFiltering = True\<rparr>", THEN conjunct1]
    by (simp add: y0 y1 y2 y3 y4 y5 y6 y7 y8 y9 y10 y11 y12 y13)
qed

text \<open>
  The claim as the specification states it, with "4-digit year" as the first
  pattern, fails: \<open>ssc-cgl-1999.pdf\<close> carries the four-digit year 1999 and
  \<open>ssc_cgl_2022.pdf\<close> the four-digit year 2022, neither year is allowed, and
  both files are processed, no year being detected.
\<close>

theorem shouldProcessPdf_decision_table_counterexample:
  "shouldProcessPdf ''ssc-cgl-1999.pdf''
        \<lparr>allowedYears = Some [''2023'', ''2024''], strictYearFiltering = False\<rparr>
     = \<lparr>shouldProcess = True, reason = Some ''No year detected, strict filtering disabled'', detectedYear = None\<rparr>
   \<and> shouldProcessPdf ''ssc_cgl_2022.pdf''
        \<lparr>allowedYears = Some [''2023'', ''2024''], strictYearFiltering = False\<rparr>
     = \<lparr>shouldProcess = True, reason = Some ''No year detected, strict filtering disabled'', detectedYear = None\<rparr>
   \<and> extractYearFromFilename ''ssc-cgl-1999.pdf'' = None
   \<and> extractYearFromFilename ''ssc_cgl_2022.pdf'' = None"
  by code_simp

section \<open>Properties of the unit processor\<close>


















section \<open>Properties of the dispatcher\<close>

lemma arraySet_length: "length (arraySet xs i v) = max (length xs) (Suc i)"
  by (auto simp: arraySet_def)

lemma arraySet_nth:
  "j < length (arraySet xs i v) \<Longrightarrow>
   arraySet xs i v ! j = (if j = i then Some v else if j < length xs then xs ! j else None)"
  by (auto simp: arraySet_def nth_append nth_list_update)

lemma takeNext_sound:
  assumes "poolSound items worker p" and "takeNext (length items) p = (r, p')"
  shows "results p' = results p \<and> active p' = active p \<and> (\<forall>i. r = Awaiting i \<longrightarrow> i < length items)"
  using assms by (auto simp: takeNext_def split: if_splits)

lemma startRunners_sound:
  "poolSound items worker p \<Longrightarrow> poolSound items worker (startRunners k (length items) p)"
proof (induction k arbitrary: p)
  case 0
  then show ?case by simp
next
  case (Suc k)
  obtain r p' where t: "takeNext (length items) p = (r, p')" by (cases "takeNext (length items) p")
  from takeNext_sound[OF Suc.prems t] Suc.prems
  have "poolSound items worker (p'\<lparr>active := active p' @ [r]\<rparr>)"
    by (auto simp: poolSound_def)
  from Suc.IH[OF this] t show ?case by simp
qed

lemma settle_sound:
  assumes "poolSound items worker p" and "settle items worker r p = Inr p'"
  shows "poolSound items worker p'"
proof (cases "r < length (active p)")
  case False
  with assms show ?thesis by (simp add: settle_def)
next
  case True
  show ?thesis
  proof (cases "active p ! r")
    case Returned
    with True assms show ?thesis by (simp add: settle_def)
  next
    case (Awaiting i)
    with True have mem: "Awaiting i \<in> set (active p)" by (metis nth_mem)
    with assms(1) have i: "i < length items" by (simp add: poolSound_def)
    from assms(2) True Awaiting obtain res where w: "worker (items ! i) i = Inr res"
      by (auto simp: settle_def split: sum.splits)
    define p1 where "p1 = p\<lparr>results := arraySet (results p) i res\<rparr>"
    have s1: "poolSound items worker p1"
      using assms(1) i w
      by (auto simp: poolSound_def p1_def arraySet_length arraySet_nth split: if_splits)
    obtain st p2 where t: "takeNext (length items) p1 = (st, p2)"
      by (cases "takeNext (length items) p1")
    from assms(2) True Awaiting w t have p': "p' = p2\<lparr>active := (active p2)[r := st]\<rparr>"
      by (simp add: settle_def p1_def)
    from takeNext_sound[OF s1 t] s1 show ?thesis
      unfolding p' by (auto simp: poolSound_def dest!: set_update_subset_insert[THEN subsetD])
  qed
qed



lemma takeNext_fields:
  assumes "takeNext n p = (r, p')"
  shows "idx p' = idx p + 1" "results p' = results p" "active p' = active p"
    "r = (if n \<le> idx p then Returned else Awaiting (idx p))"
  using assms by (auto simp: takeNext_def split: if_splits)

lemma startRunners_complete:
  "poolComplete items p \<Longrightarrow> poolComplete items (startRunners k (length items) p)"
proof (induction k arbitrary: p)
  case 0
  then show ?case by simp
next
  case (Suc k)
  obtain r p' where t: "takeNext (length items) p = (r, p')"
    by (cases "takeNext (length items) p")
  note f = takeNext_fields[OF t]
  have "poolComplete items (p'\<lparr>active := active p' @ [r]\<rparr>)"
    using Suc.prems f by (auto simp: poolComplete_def less_Suc_eq split: if_splits)
  from Suc.IH[OF this] t show ?case by simp
qed

lemma startRunners_active_length:
  "length (active (startRunners k n p)) = length (active p) + k"
proof (induction k arbitrary: p)
  case 0
  then show ?case by simp
next
  case (Suc k)
  obtain r p' where t: "takeNext n p = (r, p')" by (cases "takeNext n p")
  with Suc[of "p'\<lparr>active := active p' @ [r]\<rparr>"] takeNext_fields(3)[OF t] show ?case
    by simp
qed

lemma in_set_update_cases:
  assumes "x \<in> set xs"
  shows "x = xs ! r \<or> x \<in> set (xs[r := y])"
proof -
  from assms obtain k where k: "k < length xs" "xs ! k = x" by (auto simp: in_set_conv_nth)
  show ?thesis
  proof (cases "k = r")
    case True
    with k show ?thesis by simp
  next
    case False
    with k have "xs[r := y] ! k = x" "k < length (xs[r := y])" by simp_all
    then show ?thesis by (metis nth_mem)
  qed
qed

lemma settle_complete:
  assumes "poolComplete items p" and "poolSound items worker p"
    and "settle items worker r p = Inr p'"
  shows "poolComplete items p' \<and> length (active p') = length (active p)"
proof (cases "r < length (active p)")
  case False
  with assms show ?thesis by (simp add: settle_def)
next
  case True
  show ?thesis
  proof (cases "active p ! r")
    case Returned
    with True assms show ?thesis by (simp add: settle_def)
  next
    case (Awaiting i)
    with True have "Awaiting i \<in> set (active p)" by (metis nth_mem)
    with assms(2) have i: "i < length items" by (simp add: poolSound_def)
    from assms(3) True Awaiting obtain res where w: "worker (items ! i) i = Inr res"
      by (auto simp: settle_def split: sum.splits)
    define p1 where "p1 = p\<lparr>results := arraySet (results p) i res\<rparr>"
    obtain st p2 where t: "takeNext (length items) p1 = (st, p2)"
      by (cases "takeNext (length items) p1")
    note f = takeNext_fields[OF t]
    from assms(3) True Awaiting w t have p': "p' = p2\<lparr>active := (active p2)[r := st]\<rparr>"
      by (simp add: settle_def p1_def)
    have stored: "j < length (arraySet (results p) i res) \<and> arraySet (results p) i res ! j \<noteq> None"
      if "j = i \<or> (j < length (results p) \<and> results p ! j \<noteq> None)" for j
      using that by (auto simp: arraySet_length arraySet_nth)
    have cover: "(j < length (results p') \<and> results p' ! j \<noteq> None) \<or> Awaiting j \<in> set (active p')"
      if j: "j < idx p'" "j < length items" for j
    proof (cases "j < idx p")
      case True
      with assms(1) j consider "j < length (results p) \<and> results p ! j \<noteq> None"
        | "Awaiting j \<in> set (active p)"
        by (auto simp: poolComplete_def)
      then show ?thesis
      proof cases
        case 1
        with stored[of j] show ?thesis by (simp add: p' f p1_def)
      next
        case 2
        from in_set_update_cases[OF 2, of r st] show ?thesis
        proof
          assume "Awaiting j = active p ! r"
          with Awaiting have "j = i" by simp
          with stored[of j] show ?thesis by (simp add: p' f p1_def)
        next
          assume "Awaiting j \<in> set ((active p)[r := st])"
          then show ?thesis by (simp add: p' f p1_def)
        qed
      qed
    next
      case False
      with j have "j = idx p" and "\<not> length items \<le> idx p1"
        by (simp_all add: p' f p1_def)
      then have "st = Awaiting j" by (simp add: f p1_def)
      with True show ?thesis
        by (simp add: p' f p1_def set_update_memI)
    qed
    have ret: "length items \<le> idx p'" if "Returned \<in> set (active p')"
    proof -
      from that have "Returned \<in> set ((active p)[r := st])" by (simp add: p' f p1_def)
      then have "Returned = st \<or> Returned \<in> set (active p)"
        by (auto dest!: set_update_subset_insert[THEN subsetD])
      then show ?thesis
      proof
        assume "Returned = st"
        then have "length items \<le> idx p1" using f(4) by (auto split: if_splits)
        then show ?thesis by (simp add: p' f)
      next
        assume "Returned \<in> set (active p)"
        with assms(1) have "length items \<le> idx p" by (simp add: poolComplete_def)
        then show ?thesis by (simp add: p' f p1_def)
      qed
    qed
    have "length (active p') = length (active p)" by (simp add: p' f p1_def)
    with cover ret show ?thesis by (auto simp: poolComplete_def)
  qed
qed

lemma runSchedule_complete:
  assumes "poolComplete items p" and "poolSound items worker p" and "active p \<noteq> []"
    and "runSchedule items worker sched p = Fulfilled rs"
  shows "length rs = length items
         \<and> (\<forall>i<length items. \<exists>r. rs ! i = Some r \<and> worker (items ! i) i = Inr r)"
  using assms
proof (induction sched arbitrary: p)
  case (Cons r sched)
  show ?case
  proof (cases "list_all (\<lambda>r. r = Returned) (active p)")
    case False
    with Cons.prems(4) obtain p' where s: "settle items worker r p = Inr p'"
      and run: "runSchedule items worker sched p' = Fulfilled rs"
      by (auto split: sum.splits)
    from settle_complete[OF Cons.prems(1,2) s] Cons.prems(3)
    have "poolComplete items p'" "active p' \<noteq> []" by auto
    from Cons.IH[OF this(1) settle_sound[OF Cons.prems(2) s] this(2) run] show ?thesis .
  next
    case True
    with Cons.prems(4) have rs: "rs = results p" by simp
    from True Cons.prems(3) have "Returned \<in> set (active p)"
      by (cases "active p") (auto simp: list_all_iff)
    with Cons.prems(1) have full: "length items \<le> idx p" by (simp add: poolComplete_def)
    from True have "Awaiting i \<notin> set (active p)" for i by (auto simp: list_all_iff)
    with Cons.prems(1) full have all: "i < length (results p) \<and> results p ! i \<noteq> None"
      if "i < length items" for i
      using that by (auto simp: poolComplete_def)
    with Cons.prems(2) have "length (results p) = length items"
      by (metis poolSound_def le_antisym not_le_imp_less less_irrefl)
    with all Cons.prems(2) show ?thesis
      unfolding rs poolSound_def by (metis option.exhaust)
  qed
next
  case Nil
  then have True: "list_all (\<lambda>r. r = Returned) (active p)" and rs: "rs = results p"
    by (auto split: if_splits)
  from True Nil.prems(3) have "Returned \<in> set (active p)"
    by (cases "active p") (auto simp: list_all_iff)
  with Nil.prems(1) have full: "length items \<le> idx p" by (simp add: poolComplete_def)
  from True have "Awaiting i \<notin> set (active p)" for i by (auto simp: list_all_iff)
  with Nil.prems(1) full have all: "i < length (results p) \<and> results p ! i \<noteq> None"
    if "i < length items" for i
    using that by (auto simp: poolComplete_def)
  with Nil.prems(2) have "length (results p) = length items"
    by (metis poolSound_def le_antisym not_le_imp_less less_irrefl)
  with all Nil.prems(2) show ?case
    unfolding rs poolSound_def by (metis option.exhaust)
qed

lemma runWithConcurrency_fulfilled:
  fixes worker :: "'a \<Rightarrow> nat \<Rightarrow> error + 'r"
  assumes "runWithConcurrency items worker K sched = Fulfilled rs" and "0 < K"
  shows "length rs = length items
         \<and> (\<forall>i<length items. \<exists>r. rs ! i = Some r \<and> worker (items ! i) i = Inr r)"
proof (cases "items = []")
  case True
  with assms(1) show ?thesis by (cases sched) (simp_all add: runWithConcurrency_def)
next
  case False
  let ?p0 = "\<lparr>idx = 0, results = [], active = []\<rparr> :: 'r pool"
  define k where "k = nat (min K (int (length items)))"
  have c: "poolComplete items (startRunners k (length items) ?p0)"
    by (rule startRunners_complete) (simp add: poolComplete_def)
  have s: "poolSound items worker (startRunners k (length items) ?p0)"
    by (rule startRunners_sound) (simp add: poolSound_def)
  have "0 < k" using assms(2) False by (simp add: k_def)
  moreover have "length (active (startRunners k (length items) ?p0)) = k"
    using startRunners_active_length[of k "length items" ?p0] by simp
  ultimately have a: "active (startRunners k (length items) ?p0) \<noteq> []"
    by auto
  from assms(1) have "runSchedule items worker sched (startRunners k (length items) ?p0)
                      = Fulfilled rs"
    by (simp add: runWithConcurrency_def k_def)
  from runSchedule_complete[OF c s a this] show ?thesis .
qed

lemma settleCapturing_settle:
  "settle items (\<lambda>x i. Inr (worker x i)) r p = Inr (settleCapturing items worker r p)"
  by (simp add: settle_def settleCapturing_def split: runner.splits prod.splits)

lemma runScheduleCapturing_runSchedule:
  "runScheduleCapturing items worker sched p = runSchedule items (\<lambda>x i. Inr (worker x i)) sched p"
  by (induction sched arbitrary: p) (simp_all add: settleCapturing_settle)

lemma runWithConcurrencyCapturing_isolates:
  fixes worker :: "'a \<Rightarrow> nat \<Rightarrow> error + 'r"
  assumes "runWithConcurrencyCapturing items worker K sched = Fulfilled rs" and "0 < K"
  shows "length rs = length items \<and> (\<forall>i<length items. rs ! i = Some (worker (items ! i) i))"
proof (cases "items = []")
  case True
  with assms(1) show ?thesis
    by (cases sched) (simp_all add: runWithConcurrencyCapturing_def)
next
  case False
  let ?w = "\<lambda>x i. Inr (worker x i) :: error + (error + 'r)"
  let ?p0 = "\<lparr>idx = 0, results = replicate (length items) None, active = []\<rparr> :: (error + 'r) pool"
  define k where "k = nat (min K (int (length items)))"
  have c: "poolComplete items (startRunners k (length items) ?p0)"
    by (rule startRunners_complete) (simp add: poolComplete_def)
  have s: "poolSound items ?w (startRunners k (length items) ?p0)"
    by (rule startRunners_sound) (auto simp: poolSound_def)
  have "0 < k" using assms(2) False by (simp add: k_def)
  moreover have "length (active (startRunners k (length items) ?p0)) = k"
    using startRunners_active_length[of k "length items" ?p0] by simp
  ultimately have a: "active (startRunners k (length items) ?p0) \<noteq> []"
    by auto
  from assms(1) have "runSchedule items ?w sched (startRunners k (length items) ?p0) = Fulfilled rs"
    by (simp add: runWithConcurrencyCapturing_def runScheduleCapturing_runSchedule k_def)
  from runSchedule_complete[OF c s a this] show ?thesis by auto
qed

lemma runWithConcurrency_error_never_fulfilled:
  fixes worker :: "'a \<Rightarrow> nat \<Rightarrow> error + 'r"
  assumes "i < length items" and "worker (items ! i) i = Inl e" and "0 < K"
  shows "runWithConcurrency items worker K sched \<noteq> Fulfilled rs"
proof
  assume "runWithConcurrency items worker K sched = Fulfilled rs"
  from runWithConcurrency_fulfilled[OF this assms(3)] assms(1)
  obtain r where "worker (items ! i) i = Inr r" by blast
  with assms(2) show False by simp
qed

text \<open>
  C1 on the source. With the items \<open>a\<close>, \<open>b\<close>, \<open>c\<close> and a worker that throws
  \<open>boom\<close> on \<open>b\<close>, \<open>runWithConcurrency\<close> of \<open>utils/concurrency.ts\<close> rejects with
  \<open>boom\<close>: with one runner (which stops at \<open>b\<close>, so \<open>c\<close> is never processed) and
  with more runners than items, in whatever order the calls settle. The caller
  receives the error and no results array. By
  \<open>runWithConcurrency_error_never_fulfilled\<close> this holds of every item list,
  worker, positive bound and schedule. The copy of the function that stores the
  error in the results array returns one entry per item on the same input, as
  \<open>runWithConcurrencyCapturing_isolates\<close> shows in general.
\<close>

theorem runWithConcurrency_rethrows:
  "runWithConcurrency [''a'', ''b'', ''c''] failingWorker 1 [0, 0, 0] = Rejected ''boom''
   \<and> runWithConcurrency [''a'', ''b'', ''c''] failingWorker 5 [0, 1, 2] = Rejected ''boom''
   \<and> runWithConcurrency [''a'', ''b'', ''c''] failingWorker 5 [2, 0, 1] = Rejected ''boom''
   \<and> runWithConcurrency [''a'', ''c'', ''d''] failingWorker 2 [0, 1, 0]
       = Fulfilled [Some ''a!'', Some ''c!'', Some ''d!'']
   \<and> runWithConcurrencyCapturing [''a'', ''b'', ''c''] failingWorker 1 [0, 0, 0]
       = Fulfilled [Some (Inr ''a!''), Some (Inl ''boom''), Some (Inr ''c!'')]
   \<and> runWithConcurrencyCapturing [''a'', ''b'', ''c''] failingWorker 5 [2, 0, 1]
       = Fulfilled [Some (Inr ''a!''), Some (Inl ''boom''), Some (Inr ''c!'')]"
  by code_simp

section \<open>Properties of the reconciler and of the document result\<close>

lemma reconcile_invariant:
  assumes "questions result = []" and "skippedReason (metadata result) = None"
  shows "skippedReason (metadata (reconcile rt examCtx chunks rs result)) \<noteq> None
         \<longrightarrow> questions (reconcile rt examCtx chunks rs result) = []
             \<and> \<not> success (reconcile rt examCtx chunks rs result)"
  using assms
  by (auto simp: reconcile_def catchFailure_def split: prod.splits option.splits sum.splits)

lemma initialResult_fields:
  "questions (initialResult path) = []"
  "skippedReason (metadata (initialResult path)) = None"
  "\<not> success (initialResult path)"
  by (simp_all add: initialResult_def)

text \<open>
  C6. Every result \<open>processPdfWithClaude\<close> returns, on whichever path, satisfies:
  if \<open>metadata.skippedReason\<close> is set then the question list is empty and
  \<open>success\<close> is false.
\<close>

theorem processPdfWithClaude_skipped_invariant:
  assumes "processPdfWithClaude env path examCtx opts = Some res"
    and "skippedReason (metadata res) \<noteq> None"
  shows "questions res = [] \<and> \<not> success res"
proof -
  have inv: "skippedReason (metadata (reconcile rt c chunks rs (initialResult path))) \<noteq> None
         \<longrightarrow> questions (reconcile rt c chunks rs (initialResult path)) = []
             \<and> \<not> success (reconcile rt c chunks rs (initialResult path))" for rt c chunks rs
    by (rule reconcile_invariant) (simp_all add: initialResult_fields)
  from assms show ?thesis
    unfolding processPdfWithClaude_def Let_def
    by (auto simp: catchFailure_def inv initialResult_fields
        split: if_splits sum.splits option.splits outcome.splits)
qed

lemma processPdfWithClaude_prefilter_skip_example:
  "processPdfWithClaude (exampleEnvironment 20 (\<lambda>i n. Inl ''unreachable''))
     ''/data/ssc-cgl-2019.pdf''
     \<lparr>allowedYears = Some [''23''], strictYearFiltering = False\<rparr>
     \<lparr>pagesPerChunk = Some 8, maxRetriesPerChunk = None, chunkConcurrency = Some 3\<rparr>
   = Some \<lparr>success = False, fileName = ''ssc-cgl-2019.pdf'',
            filePath = ''/data/ssc-cgl-2019.pdf'', questions = [],
            metadata = \<lparr>totalQuestions = 0,
                        skippedReason = Some ''Year 2019 not in allowed years: 2023''\<rparr>,
            errors = [''Skipped: Year 2019 not in allowed years: 2023'']\<rparr>"
  by code_simp

lemma processPdfWithClaude_llm_skip_example:
  "processPdfWithClaude
     (exampleEnvironment 20
        (\<lambda>i n. if i = 1
                then Inr (Some (JObj [(''skip'', JBool True), (''reason'', JStr ''Wrong year'')]))
                else Inr (Some (JArr [JObj [(''page'', JNum (Num 2)), (''text'', JStr ''Q1'')]]))))
     ''/data/ssc-cgl-2023.pdf''
     \<lparr>allowedYears = Some [''23''], strictYearFiltering = False\<rparr>
     \<lparr>pagesPerChunk = Some 8, maxRetriesPerChunk = None, chunkConcurrency = Some 3\<rparr>
   = Some \<lparr>success = False, fileName = ''ssc-cgl-2023.pdf'',
            filePath = ''/data/ssc-cgl-2023.pdf'', questions = [],
            metadata = \<lparr>totalQuestions = 0, skippedReason = Some ''Skipped by LLM: Wrong year''\<rparr>,
            errors = [''Skipped by LLM: Wrong year'']\<rparr>"
  by code_simp

lemma processPdfWithClaude_strict_empty_example:
  "processPdfWithClaude (exampleEnvironment 20 (\<lambda>i n. Inr (Some (JArr []))))
     ''/data/ssc-cgl-2023.pdf''
     \<lparr>allowedYears = Some [''23''], strictYearFiltering = True\<rparr>
     \<lparr>pagesPerChunk = Some 8, maxRetriesPerChunk = None, chunkConcurrency = Some 3\<rparr>
   = Some \<lparr>success = False, fileName = ''ssc-cgl-2023.pdf'',
            filePath = ''/data/ssc-cgl-2023.pdf'', questions = [],
            metadata = \<lparr>totalQuestions = 0,
                        skippedReason =
                          Some ''LLM returned no questions and strictYearFiltering is enabled''\<rparr>,
            errors = [''LLM returned no questions and strictYearFiltering is enabled'']\<rparr>"
  by code_simp

theorem processPdfWithClaude_skipped_invariant_witness:
  "(\<exists>res. processPdfWithClaude (exampleEnvironment 20 (\<lambda>i n. Inl ''unreachable''))
             ''/data/ssc-cgl-2019.pdf''
             \<lparr>allowedYears = Some [''23''], strictYearFiltering = False\<rparr>
             \<lparr>pagesPerChunk = Some 8, maxRetriesPerChunk = None, chunkConcurrency = Some 3\<rparr>
           = Some res
         \<and> skippedReason (metadata res) = Some ''Year 2019 not in allowed years: 2023''
         \<and> questions res = [] \<and> \<not> success res)
   \<and> (\<exists>res. processPdfWithClaude
             (exampleEnvironment 20
                (\<lambda>i n. if i = 1
                        then Inr (Some (JObj [(''skip'', JBool True),
                                              (''reason'', JStr ''Wrong year'')]))
                        else Inr (Some (JArr [JObj [(''page'', JNum (Num 2)),
                                                    (''text'', JStr ''Q1'')]]))))
             ''/data/ssc-cgl-2023.pdf''
             \<lparr>allowedYears = Some [''23''], strictYearFiltering = False\<rparr>
             \<lparr>pagesPerChunk = Some 8, maxRetriesPerChunk = None, chunkConcurrency = Some 3\<rparr>
           = Some res
         \<and> skippedReason (metadata res) = Some ''Skipped by LLM: Wrong year''
         \<and> questions res = [] \<and> \<not> success res)
   \<and> (\<exists>res. processPdfWithClaude (exampleEnvironment 20 (\<lambda>i n. Inr (Some (JArr []))))
             ''/data/ssc-cgl-2023.pdf''
             \<lparr>allowedYears = Some [''23''], strictYearFiltering = True\<rparr>
             \<lparr>pagesPerChunk = Some 8, maxRetriesPerChunk = None, chunkConcurrency = Some 3\<rparr>
           = Some res
         \<and> skippedReason (metadata res)
             = Some ''LLM returned no questions and strictYearFiltering is enabled''
         \<and> questions res = [] \<and> \<not> success res)"
proof -
  note a = processPdfWithClaude_prefilter_skip_example
  note b = processPdfWithClaude_llm_skip_example
  note c = processPdfWithClaude_strict_empty_example
  have a': "skippedReason (metadata
      \<lparr>success = False, fileName = ''ssc-cgl-2019.pdf'',
       filePath = ''/data/ssc-cgl-2019.pdf'', questions = [],
       metadata = \<lparr>totalQuestions = 0,
                   skippedReason = Some ''Year 2019 not in allowed years: 2023''\<rparr>,
       errors = [''Skipped: Year 2019 not in allowed years: 2023'']\<rparr>) \<noteq> None"
    by simp
  have b': "skippedReason (metadata
      \<lparr>success = False, fileName = ''ssc-cgl-2023.pdf'',
       filePath = ''/data/ssc-cgl-2023.pdf'', questions = [],
       metadata = \<lparr>totalQuestions = 0, skippedReason = Some ''Skipped by LLM: Wrong year''\<rparr>,
       errors = [''Skipped by LLM: Wrong year'']\<rparr>) \<noteq> None"
    by simp
  have c': "skippedReason (metadata
      \<lparr>success = False, fileName = ''ssc-cgl-2023.pdf'',
       filePath = ''/data/ssc-cgl-2023.pdf'', questions = [],
       metadata = \<lparr>totalQuestions = 0,
                   skippedReason =
                     Some ''LLM returned no questions and strictYearFiltering is enabled''\<rparr>,
       errors = [''LLM returned no questions and strictYearFiltering is enabled'']\<rparr>) \<noteq> None"
    by simp
  from processPdfWithClaude_skipped_invariant[OF a a']
    processPdfWithClaude_skipped_invariant[OF b b']
    processPdfWithClaude_skipped_invariant[OF c c']
  show ?thesis
    unfolding a b c by simp
qed

















lemma skippedReason_not_by_LLM:
  "''LLM returned no questions and strictYearFiltering is enabled'' \<noteq> ''Skipped by LLM: '' @ why"
  by simp





























end
